theory Spec2Isabelle
  imports Main "HOL-Library.Countable"
begin

section \<open>JavaScript values\<close>

text \<open>
  The client library (\<^verbatim>\<open>src/lib/agora-utils.ts\<close>, \<^verbatim>\<open>src/lib/agora-config.ts\<close>) and the
  token route are TypeScript. Strings are lists of characters (one \<open>char\<close> per code
  unit, code units below 256). In the client library a number is an integer (the user
  ids and the JSON numbers it handles; no fractions, no NaN, no rounding); the token
  route has its own type of numbers, with fractions. A value decoded by
  \<^verbatim>\<open>response.json()\<close> is a \<open>json\<close>. A JavaScript value that may be \<^verbatim>\<open>undefined\<close> is a
  \<open>json option\<close>, \<open>None\<close> standing for \<^verbatim>\<open>undefined\<close>.
\<close>

datatype json =
    JNull
  | JBool bool
  | JNum int
  | JStr string
  | JArr "json list"
  | JObj "(string \<times> json) list"

type_synonym jsval = "json option"

text \<open>Truthiness, as \<^verbatim>\<open>if (v)\<close>, \<^verbatim>\<open>!v\<close> and \<^verbatim>\<open>v || w\<close> test it.\<close>

fun truthy :: "jsval \<Rightarrow> bool" where
  "truthy None = False"
| "truthy (Some JNull) = False"
| "truthy (Some (JBool b)) = b"
| "truthy (Some (JNum n)) = (n \<noteq> 0)"
| "truthy (Some (JStr s)) = (s \<noteq> [])"
| "truthy (Some (JArr xs)) = True"
| "truthy (Some (JObj kvs)) = True"

text \<open>\<^verbatim>\<open>a || b\<close> on values.\<close>

definition js_or :: "jsval \<Rightarrow> jsval \<Rightarrow> jsval" where
  "js_or a b = (if truthy a then a else b)"

text \<open>\<^verbatim>\<open>a || b\<close> where \<open>a\<close> is a string that may be missing and \<open>b\<close> is a string.\<close>

definition str_or :: "string option \<Rightarrow> string \<Rightarrow> string" where
  "str_or a b = (case a of None \<Rightarrow> b | Some s \<Rightarrow> if s = [] then b else s)"

text \<open>A thrown value: whether it is an \<^verbatim>\<open>Error\<close> instance, its \<^verbatim>\<open>code\<close> and its \<^verbatim>\<open>message\<close>.\<close>

datatype js_error = JsError (instanceof_Error: bool) (err_code: "string option") (err_message: "string option")

text \<open>\<^verbatim>\<open>new Error(msg)\<close>.\<close>

definition new_Error :: "string \<Rightarrow> js_error" where
  "new_Error msg = JsError True None (Some msg)"

text \<open>Reading a property of \<^verbatim>\<open>null\<close> is a \<^verbatim>\<open>TypeError\<close>.\<close>

definition TypeError :: js_error where
  "TypeError = JsError True None (Some ''TypeError: Cannot read properties of null'')"

text \<open>
  \<^verbatim>\<open>v.k\<close> for the property names the code reads (\<^verbatim>\<open>token\<close>, \<^verbatim>\<open>code\<close>, \<^verbatim>\<open>data\<close>,
  \<^verbatim>\<open>message\<close>, \<^verbatim>\<open>error\<close>, \<^verbatim>\<open>appid\<close>): it throws on \<^verbatim>\<open>null\<close> and \<^verbatim>\<open>undefined\<close>, is the
  member of an object (the last one of a repeated key, as \<^verbatim>\<open>JSON.parse\<close> keeps it) and
  \<^verbatim>\<open>undefined\<close> on every other value.
\<close>

fun get_prop :: "jsval \<Rightarrow> string \<Rightarrow> js_error + jsval" where
  "get_prop None k = Inl TypeError"
| "get_prop (Some JNull) k = Inl TypeError"
| "get_prop (Some (JObj kvs)) k = Inr (map_of (rev kvs) k)"
| "get_prop (Some v) k = Inr None"

subsection \<open>Numbers and strings\<close>

fun digit_char :: "nat \<Rightarrow> char" where
  "digit_char n = (''0123456789'' ! (n mod 10))"

fun show_nat :: "nat \<Rightarrow> string" where
  "show_nat n = (if n < 10 then [digit_char n] else show_nat (n div 10) @ [digit_char n])"

declare show_nat.simps [simp del]

text \<open>\<^verbatim>\<open>n.toString()\<close> and \<^verbatim>\<open>String(n)\<close> for an integer.\<close>

definition show_int :: "int \<Rightarrow> string" where
  "show_int i = (if i < 0 then CHR ''-'' # show_nat (nat (- i)) else show_nat (nat i))"

fun join_with :: "string \<Rightarrow> string list \<Rightarrow> string" where
  "join_with sep [] = []"
| "join_with sep [x] = x"
| "join_with sep (x # y # ys) = x @ sep @ join_with sep (y # ys)"

text \<open>\<^verbatim>\<open>String(v)\<close>, which \<^verbatim>\<open>new Error(v)\<close> applies to a message that is not a string.\<close>

fun js_String :: "json \<Rightarrow> string" where
  "js_String JNull = ''null''"
| "js_String (JBool b) = (if b then ''true'' else ''false'')"
| "js_String (JNum n) = show_int n"
| "js_String (JStr s) = s"
| "js_String (JArr xs) = join_with '','' (map (\<lambda>x. if x = JNull then [] else js_String x) xs)"
| "js_String (JObj kvs) = ''[object Object]''"

text \<open>
  White space as \<^verbatim>\<open>String.prototype.trim\<close> and \<^verbatim>\<open>parseInt\<close> skip it, among the code
  units below 256: tab, line feed, vertical tab, form feed, carriage return, space and
  the no-break space.
\<close>

definition is_whitespace :: "char \<Rightarrow> bool" where
  "is_whitespace c \<longleftrightarrow> c \<in> set [CHR 0x09, CHR 0x0A, CHR 0x0B, CHR 0x0C, CHR 0x0D, CHR 0x20, CHR 0xA0]"

definition trim :: "string \<Rightarrow> string" where
  "trim s = rev (dropWhile is_whitespace (rev (dropWhile is_whitespace s)))"

section \<open>Credential validation\<close>

definition is_hex :: "char \<Rightarrow> bool" where
  "is_hex c \<longleftrightarrow> c \<in> set ''0123456789abcdefABCDEF''"

text \<open>\<^verbatim>\<open>/^[a-f0-9]{32}$/i.test(s)\<close>\<close>

definition appIdPattern_test :: "string \<Rightarrow> bool" where
  "appIdPattern_test s \<longleftrightarrow> length s = 32 \<and> list_all is_hex s"

text \<open>\<^verbatim>\<open>/^00[67]/.test(s)\<close>\<close>

fun versionPattern_test :: "string \<Rightarrow> bool" where
  "versionPattern_test (a # b # c # rest) =
     (a = CHR ''0'' \<and> b = CHR ''0'' \<and> (c = CHR ''6'' \<or> c = CHR ''7''))"
| "versionPattern_test s = False"

text \<open>
  \<^verbatim>\<open>validateAgoraToken\<close> of \<^verbatim>\<open>agora-utils.ts\<close>. The argument is any value the caller
  passes: the function tests \<^verbatim>\<open>typeof token !== 'string'\<close> itself.
\<close>

fun validateAgoraToken :: "jsval \<Rightarrow> bool" where
  "validateAgoraToken (Some (JStr s)) =
     (if s = [] then False
      else if \<not> versionPattern_test s then False
      else length s > 50)"
| "validateAgoraToken v = False"

section \<open>The world outside the program\<close>

datatype mode = Rtc | Live

datatype codec = Vp8 | Vp9 | H264

text \<open>\<^verbatim>\<open>'publisher' | 'audience'\<close>\<close>

datatype role = Publisher | Audience

fun role_string :: "role \<Rightarrow> string" where
  "role_string Publisher = ''publisher''"
| "role_string Audience = ''audience''"

text \<open>\<^verbatim>\<open>string | number\<close>, the type of a user id.\<close>

datatype uid = UidStr string | UidNum int

fun uid_json :: "uid \<Rightarrow> json" where
  "uid_json (UidStr s) = JStr s"
| "uid_json (UidNum n) = JNum n"

text \<open>\<^verbatim>\<open>uid.toString()\<close>\<close>

fun uid_toString :: "uid \<Rightarrow> string" where
  "uid_toString (UidStr s) = s"
| "uid_toString (UidNum n) = show_int n"

text \<open>\<^verbatim>\<open>uid || 0\<close> and \<^verbatim>\<open>uid || null\<close> for an optional user id.\<close>

fun uid_or_zero :: "uid option \<Rightarrow> uid" where
  "uid_or_zero None = UidNum 0"
| "uid_or_zero (Some (UidStr s)) = (if s = [] then UidNum 0 else UidStr s)"
| "uid_or_zero (Some (UidNum n)) = UidNum n"

fun uid_or_null :: "uid option \<Rightarrow> uid option" where
  "uid_or_null None = None"
| "uid_or_null (Some (UidStr s)) = (if s = [] then None else Some (UidStr s))"
| "uid_or_null (Some (UidNum n)) = (if n = 0 then None else Some (UidNum n))"

datatype http_method = MGet | MPost

text \<open>
  A request handed to \<^verbatim>\<open>fetch\<close>: the method, the URL without its query, the query
  parameters (before \<^verbatim>\<open>URLSearchParams\<close> encodes them) and the JSON body (before
  \<^verbatim>\<open>JSON.stringify\<close>).
\<close>

datatype request =
  Request (req_method: http_method) (req_url: string) (req_query: "(string \<times> string) list")
    (req_body: "json option")

text \<open>
  What \<^verbatim>\<open>fetch\<close> gives: it rejects (a network error), or it resolves to a response with
  its \<^verbatim>\<open>ok\<close> flag, its \<^verbatim>\<open>status\<close> and what \<^verbatim>\<open>response.json()\<close> gives (the decoded body,
  or the error it throws on a body that is not JSON).
\<close>

datatype fetch_result =
    NetworkError js_error
  | HttpResponse (resp_ok: bool) (resp_status: nat) (resp_json: "js_error + json")

datatype track = Track nat

datatype rtc_client = RtcClient mode codec

text \<open>Every call the program makes to the network and to the RTC engine, in order.\<close>

datatype call =
    CreateClient mode codec
  | ClientOn string
  | Fetch request
  | ClientJoin string string jsval "uid option"
  | CreateMicrophoneAudioTrack
  | CreateCameraVideoTrack
  | ClientPublish "track list"
  | TrackPlay track
  | TrackStop track
  | TrackClose track
  | ClientLeave

text \<open>
  The environment answers every call. An answer may depend on the calls made so far
  (the first argument), so that the same call can succeed once and fail later.
\<close>

record env =
  window_defined :: bool
  process_env :: "string \<Rightarrow> string option"
  localStorage_getItem :: "string \<Rightarrow> string option"
  location_search :: "(string \<times> string) list"
  random_uuid :: string
  local_player :: bool
  fetch :: "call list \<Rightarrow> request \<Rightarrow> fetch_result"
  engine_join :: "call list \<Rightarrow> string \<Rightarrow> string \<Rightarrow> jsval \<Rightarrow> uid option \<Rightarrow> js_error + uid"
  engine_publish :: "call list \<Rightarrow> track list \<Rightarrow> js_error option"
  engine_leave :: "call list \<Rightarrow> js_error option"
  engine_createMicrophoneAudioTrack :: "call list \<Rightarrow> js_error + track"
  engine_createCameraVideoTrack :: "call list \<Rightarrow> js_error + track"
  track_play :: "call list \<Rightarrow> track \<Rightarrow> js_error option"
  track_stop :: "call list \<Rightarrow> track \<Rightarrow> js_error option"
  track_close :: "call list \<Rightarrow> track \<Rightarrow> js_error option"

section \<open>Token requests (agora-utils.ts)\<close>

definition BASE_URL :: "env \<Rightarrow> string" where
  "BASE_URL e =
     str_or (process_env e ''NEXT_PUBLIC_AGORA_TOKEN_SERVER_URL'') ''https://webdemo-for-agora-io.agora.io''"

text \<open>\<^verbatim>\<open>generateUUID\<close> draws from \<^verbatim>\<open>Math.random\<close>: the environment gives the result.\<close>

definition generateUUID :: "env \<Rightarrow> string" where
  "generateUUID e = random_uuid e"

definition getOptionsFromLocal :: "env \<Rightarrow> string \<times> string" where
  "getOptionsFromLocal e =
     (if \<not> window_defined e then
        (str_or (process_env e ''NEXT_PUBLIC_AGORA_APP_ID'') [],
         str_or (process_env e ''NEXT_PUBLIC_AGORA_APP_CERTIFICATE'') [])
      else
        (str_or (localStorage_getItem e ''agora_app_id'')
           (str_or (process_env e ''NEXT_PUBLIC_AGORA_APP_ID'') []),
         str_or (localStorage_getItem e ''agora_app_certificate'')
           (str_or (process_env e ''NEXT_PUBLIC_AGORA_APP_CERTIFICATE'') [])))"

definition getEncryptFromUrl :: "env \<Rightarrow> string option \<times> string option" where
  "getEncryptFromUrl e =
     (if \<not> window_defined e then (None, None)
      else (map_of (location_search e) ''encryptedId'',
            map_of (location_search e) ''encryptedSecret''))"

text \<open>\<^verbatim>\<open>new Error(v || dflt)\<close>\<close>

definition error_or :: "jsval \<Rightarrow> string \<Rightarrow> js_error" where
  "error_or v dflt =
     (case v of None \<Rightarrow> new_Error dflt
      | Some j \<Rightarrow> if truthy (Some j) then new_Error (js_String j) else new_Error dflt)"

text \<open>
  The \<^verbatim>\<open>try\<close> block of \<^verbatim>\<open>agoraGetAppData\<close>: one POST of \<open>data\<close> to \<open>url\<close>. The \<^verbatim>\<open>catch\<close>
  logs and rethrows. The update of \<^verbatim>\<open>config.appid\<close> writes to the object literal the
  caller built for this call, which nothing reads afterwards.
\<close>

definition agoraGetAppData_fetch ::
  "env \<Rightarrow> string \<Rightarrow> json \<Rightarrow> call list \<Rightarrow> (js_error + jsval) \<times> call list" where
  "agoraGetAppData_fetch e url data log =
     (let rq = Request MPost url [] (Some data); log1 = log @ [Fetch rq] in
      case fetch e log rq of
        NetworkError err \<Rightarrow> (Inl err, log1)
      | HttpResponse ok st body \<Rightarrow>
          (case body of
             Inl err \<Rightarrow> (Inl err, log1)
           | Inr resp \<Rightarrow>
               (case get_prop (Some resp) ''code'' of
                  Inl err \<Rightarrow> (Inl err, log1)
                | Inr c \<Rightarrow>
                    if c \<noteq> Some (JNum 0) then
                      (case get_prop (Some resp) ''message'' of
                         Inl err \<Rightarrow> (Inl err, log1)
                       | Inr m \<Rightarrow>
                           (Inl (error_or m
                              ''Generate token error, please check your appid and appcertificate parameters''),
                            log1))
                    else
                      (case get_prop (Some resp) ''data'' of
                         Inl err \<Rightarrow> (Inl err, log1)
                       | Inr d \<Rightarrow>
                           (case get_prop (js_or d (Some (JObj []))) ''token'' of
                              Inl err \<Rightarrow> (Inl err, log1)
                            | Inr tok \<Rightarrow> (Inr (js_or tok (Some JNull)), log1))))))"

text \<open>The two bodies \<^verbatim>\<open>agoraGetAppData\<close> builds for the vendor's server.\<close>

definition encrypted_data :: "env \<Rightarrow> string \<Rightarrow> string \<Rightarrow> string \<Rightarrow> json" where
  "encrypted_data e chan encryptedId encryptedSecret =
     JObj [(''channelName'', JStr chan),
           (''encryptedId'', JStr encryptedId),
           (''encryptedSecret'', JStr encryptedSecret),
           (''traceId'', JStr (generateUUID e)),
           (''src'', JStr ''webdemo'')]"

definition certificate_data :: "string \<Rightarrow> string \<Rightarrow> string \<Rightarrow> uid \<Rightarrow> json" where
  "certificate_data appid certificate chan u =
     JObj [(''appId'', JStr appid),
           (''appCertificate'', JStr certificate),
           (''channelName'', JStr chan),
           (''expire'', JNum 7200),
           (''src'', JStr ''web''),
           (''types'', JArr [JNum 1, JNum 2]),
           (''uid'', uid_json u)]"

text \<open>
  \<^verbatim>\<open>agoraGetAppData\<close>, called with the user id and the channel of the configuration. It
  returns \<^verbatim>\<open>null\<close> (\<open>Some JNull\<close>) when it has no token.
\<close>

definition agoraGetAppData :: "env \<Rightarrow> uid \<Rightarrow> string \<Rightarrow> call list \<Rightarrow> (js_error + jsval) \<times> call list" where
  "agoraGetAppData e u chan log =
     (let (appid, certificate) = getOptionsFromLocal e;
          (encryptedId, encryptedSecret) = getEncryptFromUrl e
      in
      if str_or encryptedId [] \<noteq> [] \<and> str_or encryptedSecret [] \<noteq> [] then
        agoraGetAppData_fetch e (BASE_URL e @ ''/v1/webdemo/encrypted/token'')
          (encrypted_data e chan (str_or encryptedId []) (str_or encryptedSecret [])) log
      else if certificate = [] then (Inr (Some JNull), log)
      else
        agoraGetAppData_fetch e (BASE_URL e @ ''/v2/token/generate'')
          (certificate_data appid certificate chan u) log)"

text \<open>The request \<^verbatim>\<open>generateTokenFromBackend\<close> sends: a JSON POST to the application's own token route.\<close>

definition backend_request :: "string \<Rightarrow> string \<Rightarrow> string \<Rightarrow> uid \<Rightarrow> role \<Rightarrow> int \<Rightarrow> request" where
  "backend_request aid cert channelName u r expireTimeInSeconds =
     Request MPost ''/api/agora/token'' []
       (Some (JObj [(''appId'', JStr aid),
                    (''appCertificate'', JStr cert),
                    (''channelName'', JStr channelName),
                    (''uid'', uid_json u),
                    (''role'', JStr (role_string r)),
                    (''expireTimeInSeconds'', JNum expireTimeInSeconds)]))"

text \<open>\<^verbatim>\<open>generateTokenFromBackend\<close>\<close>

definition generateTokenFromBackend ::
  "env \<Rightarrow> string \<Rightarrow> string \<Rightarrow> string \<Rightarrow> uid \<Rightarrow> role \<Rightarrow> int \<Rightarrow> call list
     \<Rightarrow> (js_error + jsval) \<times> call list" where
  "generateTokenFromBackend e aid cert channelName u r expireTimeInSeconds log =
     (let rq = backend_request aid cert channelName u r expireTimeInSeconds;
          log1 = log @ [Fetch rq] in
      case fetch e log rq of
        NetworkError err \<Rightarrow> (Inl err, log1)
      | HttpResponse ok st body \<Rightarrow>
          if \<not> ok then
            (case body of
               Inl err \<Rightarrow> (Inl err, log1)
             | Inr errorData \<Rightarrow>
                 (case get_prop (Some errorData) ''error'' of
                    Inl err \<Rightarrow> (Inl err, log1)
                  | Inr v \<Rightarrow> (Inl (error_or v (''HTTP '' @ show_nat st)), log1)))
          else
            (case body of
               Inl err \<Rightarrow> (Inl err, log1)
             | Inr data \<Rightarrow> (get_prop (Some data) ''token'', log1)))"

text \<open>The request \<^verbatim>\<open>generateTokenFromServer\<close> sends: a GET with the credentials in the query string.\<close>

definition server_request :: "string \<Rightarrow> string \<Rightarrow> string \<Rightarrow> uid \<Rightarrow> role \<Rightarrow> request" where
  "server_request aid cert channelName u r =
     Request MGet ''/api/agora/token''
       [(''appId'', aid),
        (''appCertificate'', cert),
        (''channel'', channelName),
        (''uid'', uid_toString u),
        (''role'', role_string r)] None"

text \<open>\<^verbatim>\<open>generateTokenFromServer\<close>\<close>

definition generateTokenFromServer ::
  "env \<Rightarrow> string \<Rightarrow> string \<Rightarrow> string \<Rightarrow> uid \<Rightarrow> role \<Rightarrow> call list
     \<Rightarrow> (js_error + jsval) \<times> call list" where
  "generateTokenFromServer e aid cert channelName u r log =
     (let rq = server_request aid cert channelName u r;
          log1 = log @ [Fetch rq] in
      case fetch e log rq of
        NetworkError err \<Rightarrow> (Inl err, log1)
      | HttpResponse ok st body \<Rightarrow>
          if \<not> ok then
            (case body of
               Inl err \<Rightarrow> (Inl err, log1)
             | Inr errorData \<Rightarrow>
                 (case get_prop (Some errorData) ''error'' of
                    Inl err \<Rightarrow> (Inl err, log1)
                  | Inr v \<Rightarrow> (Inl (error_or v (''HTTP '' @ show_nat st)), log1)))
          else
            (case body of
               Inl err \<Rightarrow> (Inl err, log1)
             | Inr data \<Rightarrow>
                 (case get_prop (Some data) ''code'' of
                    Inl err \<Rightarrow> (Inl err, log1)
                  | Inr c \<Rightarrow>
                      if c \<noteq> Some (JNum 0) then
                        (case get_prop (Some data) ''message'' of
                           Inl err \<Rightarrow> (Inl err, log1)
                         | Inr m \<Rightarrow> (Inl (error_or m ''Token generation failed''), log1))
                      else
                        (case get_prop (Some data) ''data'' of
                           Inl err \<Rightarrow> (Inl err, log1)
                         | Inr d \<Rightarrow> (get_prop d ''token'', log1)))))"

section \<open>The session controller (agora-config.ts)\<close>

record agora_config =
  appId :: string
  channel :: string
  token :: "string option"
  uid :: "uid option"
  appCertificate :: "string option"
  mode :: "mode option"
  codec :: "codec option"

record agora_client =
  client :: "rtc_client option"
  config :: agora_config
  localVideoTrack :: "track option"
  localAudioTrack :: "track option"
  isPublisher :: bool

text \<open>
  The constructor: \<^verbatim>\<open>{ mode: 'rtc', codec: 'vp8', ...config }\<close>. A key the caller gives
  replaces the default.
\<close>

definition AgoraClient :: "agora_config \<Rightarrow> agora_client" where
  "AgoraClient cfg =
     \<lparr> client = None,
       config = cfg \<lparr> mode := (case mode cfg of None \<Rightarrow> Some Rtc | Some m \<Rightarrow> Some m),
                      codec := (case codec cfg of None \<Rightarrow> Some Vp8 | Some c \<Rightarrow> Some c) \<rparr>,
       localVideoTrack = None,
       localAudioTrack = None,
       isPublisher = False \<rparr>"

text \<open>
  \<^verbatim>\<open>setupEventListeners\<close> registers four handlers on the client. What the handlers do
  when the engine fires them is outside this development.
\<close>

definition setupEventListeners :: "agora_client \<Rightarrow> call list \<Rightarrow> call list" where
  "setupEventListeners s log =
     (if client s = None then log
      else log @ [ClientOn ''user-published'', ClientOn ''user-unpublished'',
                  ClientOn ''user-left'', ClientOn ''connection-state-change''])"

text \<open>
  \<^verbatim>\<open>initClient\<close>. The arguments of \<^verbatim>\<open>createClient\<close> are the literals of the source, not
  fields of the configuration. The dynamic import and \<^verbatim>\<open>createClient\<close> are taken to
  succeed.
\<close>

definition initClient :: "env \<Rightarrow> agora_client \<Rightarrow> call list \<Rightarrow> agora_client \<times> call list" where
  "initClient e s log =
     (if \<not> window_defined e then (s, log)
      else
        (let s1 = s \<lparr> client := Some (RtcClient Rtc Vp8) \<rparr>;
             log1 = log @ [CreateClient Rtc Vp8]
         in (s1, setupEventListeners s1 log1)))"

text \<open>\<^verbatim>\<open>generateToken\<close>. It reads the configuration only.\<close>

definition generateToken ::
  "env \<Rightarrow> agora_config \<Rightarrow> role \<Rightarrow> call list \<Rightarrow> (js_error + jsval) \<times> call list" where
  "generateToken e cfg r log =
     (if str_or (appCertificate cfg) [] \<noteq> [] then
        (case generateTokenFromServer e (appId cfg) (str_or (appCertificate cfg) []) (channel cfg)
                (uid_or_zero (uid cfg)) r log of
           (Inr t, log1) \<Rightarrow> (Inr t, log1)
         | (Inl serverError, log1) \<Rightarrow>
             generateTokenFromBackend e (appId cfg) (str_or (appCertificate cfg) []) (channel cfg)
               (uid_or_zero (uid cfg)) r 3600 log1)
      else
        (case agoraGetAppData e (uid_or_zero (uid cfg)) (channel cfg) log of
           (Inl err, log1) \<Rightarrow> (Inl err, log1)
         | (Inr serverToken, log1) \<Rightarrow>
             if truthy serverToken then (Inr serverToken, log1)
             else (Inl (new_Error ''No token generation method available. Please provide App Certificate.''),
                   log1)))"

text \<open>\<^verbatim>\<open>createAndPublishTracks\<close>. Its \<^verbatim>\<open>catch\<close> logs and rethrows.\<close>

definition createAndPublishTracks ::
  "env \<Rightarrow> agora_client \<Rightarrow> call list \<Rightarrow> (js_error + unit) \<times> agora_client \<times> call list" where
  "createAndPublishTracks e s log =
     (if client s = None \<or> \<not> isPublisher s then (Inr (), s, log)
      else
        (let log1 = log @ [CreateMicrophoneAudioTrack] in
         case engine_createMicrophoneAudioTrack e log of
           Inl err \<Rightarrow> (Inl err, s, log1)
         | Inr a \<Rightarrow>
             (let s1 = s \<lparr> localAudioTrack := Some a \<rparr>;
                  log2 = log1 @ [CreateCameraVideoTrack] in
              case engine_createCameraVideoTrack e log1 of
                Inl err \<Rightarrow> (Inl err, s1, log2)
              | Inr v \<Rightarrow>
                  (let s2 = s1 \<lparr> localVideoTrack := Some v \<rparr>;
                       log3 = log2 @ [ClientPublish [a, v]] in
                   case engine_publish e log2 [a, v] of
                     Some err \<Rightarrow> (Inl err, s2, log3)
                   | None \<Rightarrow>
                       if local_player e then
                         (case track_play e log3 v of
                            Some err \<Rightarrow> (Inl err, s2, log3 @ [TrackPlay v])
                          | None \<Rightarrow> (Inr (), s2, log3 @ [TrackPlay v]))
                       else (Inr (), s2, log3)))))"

text \<open>The \<^verbatim>\<open>catch\<close> block of \<^verbatim>\<open>join\<close>: the error it throws for the error it caught.\<close>

definition join_catch :: "js_error \<Rightarrow> js_error" where
  "join_catch errorObj =
     (if err_code errorObj = Some ''CAN_NOT_GET_GATEWAY_SERVER'' then
        new_Error ''Invalid App ID or network connection issue. Please verify your App ID is correct.''
      else if err_code errorObj = Some ''INVALID_TOKEN'' then
        new_Error ''Invalid token. Please check your token or generate a new one.''
      else if err_code errorObj = Some ''TOKEN_EXPIRED'' then
        new_Error ''Token has expired. Please generate a new token.''
      else if err_code errorObj = Some ''INVALID_VENDOR_KEY'' then
        new_Error ''Invalid App ID. Please check your App ID from Agora Console.''
      else if err_code errorObj = Some ''DYNAMIC_KEY_TIMEOUT'' then
        new_Error ''Token has expired. Please generate a new token.''
      else
        new_Error (''Failed to join channel: '' @
          str_or (err_message errorObj) (str_or (err_code errorObj) ''Unknown error'')))"

text \<open>
  The first statements of the \<^verbatim>\<open>try\<close> block of \<^verbatim>\<open>join\<close>: the token of the configuration,
  or a generated one; the inner \<^verbatim>\<open>catch\<close> replaces the error of \<^verbatim>\<open>generateToken\<close>.
\<close>

definition acquire_token ::
  "env \<Rightarrow> role \<Rightarrow> agora_client \<Rightarrow> call list \<Rightarrow> (js_error + jsval) \<times> call list" where
  "acquire_token e r s log =
     (if str_or (token (config s)) [] = [] then
        (case generateToken e (config s) r log of
           (Inl tokenError, log1) \<Rightarrow>
             (Inl (new_Error ''Token generation failed. Please check your App Certificate or server configuration.''),
              log1)
         | (Inr t, log1) \<Rightarrow> (Inr t, log1))
      else (Inr (Some (JStr (str_or (token (config s)) []))), log))"

text \<open>The \<^verbatim>\<open>try\<close> block of \<^verbatim>\<open>join\<close>, entered with a client.\<close>

definition join_try ::
  "env \<Rightarrow> role \<Rightarrow> agora_client \<Rightarrow> call list \<Rightarrow> (js_error + unit) \<times> agora_client \<times> call list" where
  "join_try e r s log =
     (case acquire_token e r s log of
        (Inl err, log1) \<Rightarrow> (Inl err, s, log1)
      | (Inr tok, log1) \<Rightarrow>
          (let log2 = log1 @ [ClientJoin (trim (appId (config s))) (trim (channel (config s))) tok
                                (uid_or_null (uid (config s)))] in
           case engine_join e log1 (trim (appId (config s))) (trim (channel (config s))) tok
                  (uid_or_null (uid (config s))) of
             Inl err \<Rightarrow> (Inl err, s, log2)
           | Inr assigned \<Rightarrow>
               if isPublisher s then createAndPublishTracks e s log2 else (Inr (), s, log2)))"

text \<open>\<^verbatim>\<open>if (!this.client) { await this.initClient(); }\<close>\<close>

definition ensure_client :: "env \<Rightarrow> agora_client \<Rightarrow> call list \<Rightarrow> agora_client \<times> call list" where
  "ensure_client e s log = (if client s = None then initClient e s log else (s, log))"

text \<open>
  \<^verbatim>\<open>join\<close>. The warning about a token that fails \<^verbatim>\<open>validateAgoraToken\<close> only writes to
  the console.
\<close>

definition join ::
  "env \<Rightarrow> role \<Rightarrow> agora_client \<Rightarrow> call list \<Rightarrow> (js_error + unit) \<times> agora_client \<times> call list" where
  "join e r s log =
     (if appId (config s) = [] \<or> trim (appId (config s)) = [] then
        (Inl (new_Error ''App ID is required and cannot be empty''), s, log)
      else if channel (config s) = [] \<or> trim (channel (config s)) = [] then
        (Inl (new_Error ''Channel name is required and cannot be empty''), s, log)
      else if \<not> appIdPattern_test (trim (appId (config s))) then
        (Inl (new_Error ''Invalid App ID format. App ID should be a 32-character hexadecimal string.''),
         s, log)
      else
        (let (s1, log1) = ensure_client e s log in
         if client s1 = None then (Inl (new_Error ''Failed to initialize Agora client''), s1, log1)
         else
           (case join_try e r s1 log1 of
              (Inl err, s2, log2) \<Rightarrow> (Inl (join_catch err), s2, log2)
            | (Inr u, s2, log2) \<Rightarrow> (Inr u, s2, log2))))"

definition joinAsAudience ::
  "env \<Rightarrow> agora_client \<Rightarrow> call list \<Rightarrow> (js_error + unit) \<times> agora_client \<times> call list" where
  "joinAsAudience e s log = join e Audience (s \<lparr> isPublisher := False \<rparr>) log"

definition joinAsPublisher ::
  "env \<Rightarrow> agora_client \<Rightarrow> call list \<Rightarrow> (js_error + unit) \<times> agora_client \<times> call list" where
  "joinAsPublisher e s log = join e Publisher (s \<lparr> isPublisher := True \<rparr>) log"

text \<open>\<^verbatim>\<open>t.stop(); t.close();\<close> on a local track: the second call runs if the first returns.\<close>

definition stop_close :: "env \<Rightarrow> track \<Rightarrow> call list \<Rightarrow> js_error option \<times> call list" where
  "stop_close e t log =
     (case track_stop e log t of
        Some err \<Rightarrow> (Some err, log @ [TrackStop t])
      | None \<Rightarrow> (track_close e (log @ [TrackStop t]) t, log @ [TrackStop t, TrackClose t]))"

text \<open>\<^verbatim>\<open>if (track) { track.stop(); track.close(); }\<close>\<close>

definition release :: "env \<Rightarrow> track option \<Rightarrow> call list \<Rightarrow> js_error option \<times> call list" where
  "release e t log = (case t of None \<Rightarrow> (None, log) | Some tr \<Rightarrow> stop_close e tr log)"

text \<open>
  \<^verbatim>\<open>leave\<close>. One \<^verbatim>\<open>try\<close> block holds every step and its \<^verbatim>\<open>catch\<close> rethrows, so the
  first step that throws ends the call. A track reference is cleared after its
  \<^verbatim>\<open>close()\<close> returned.
\<close>

definition leave ::
  "env \<Rightarrow> agora_client \<Rightarrow> call list \<Rightarrow> (js_error + unit) \<times> agora_client \<times> call list" where
  "leave e s log =
     (if client s = None then (Inr (), s, log)
      else
        (case release e (localVideoTrack s) log of
           (Some err, log1) \<Rightarrow> (Inl err, s, log1)
         | (None, log1) \<Rightarrow>
             (let s1 = s \<lparr> localVideoTrack := None \<rparr> in
              case release e (localAudioTrack s1) log1 of
                (Some err, log2) \<Rightarrow> (Inl err, s1, log2)
              | (None, log2) \<Rightarrow>
                  (let s2 = s1 \<lparr> localAudioTrack := None \<rparr> in
                   case engine_leave e log2 of
                     Some err \<Rightarrow> (Inl err, s2, log2 @ [ClientLeave])
                   | None \<Rightarrow> (Inr (), s2 \<lparr> isPublisher := False \<rparr>, log2 @ [ClientLeave])))))"

section \<open>The token route (POST /api/agora/token)\<close>

text \<open>
  A JavaScript number on the server: not a number, an infinity, or a finite value, which
  is a rational. The route receives numbers from JSON (finite) and makes them with
  \<^verbatim>\<open>parseInt\<close> and \<^verbatim>\<open>+\<close>, whose exact results the language rounds to the nearest double.
  That rounding is not computed here: it is the function \<open>to_Number\<close> of the
  environment, and the theorems assume of it only that it keeps every integer of
  magnitude at most \<open>2 ^ 53\<close>, as IEEE 754 does.
\<close>

datatype number = NaN | PosInfinity | NegInfinity | Num rat

text \<open>Truthiness of a number, for \<^verbatim>\<open>n || 0\<close>.\<close>

fun number_truthy :: "number \<Rightarrow> bool" where
  "number_truthy NaN = False"
| "number_truthy (Num q) = (q \<noteq> 0)"
| "number_truthy PosInfinity = True"
| "number_truthy NegInfinity = True"

definition exact_on_safe_integers :: "(rat \<Rightarrow> number) \<Rightarrow> bool" where
  "exact_on_safe_integers rnd \<longleftrightarrow> (\<forall>n :: int. \<bar>n\<bar> \<le> 2 ^ 53 \<longrightarrow> rnd (of_int n) = Num (of_int n))"

text \<open>
  \<^verbatim>\<open>parseInt(s)\<close> with no radix: leading white space, a sign, \<^verbatim>\<open>0x\<close> for base 16, then
  the longest run of digits, whose value is rounded to a number; \<open>NaN\<close> when there is no
  digit.
\<close>

definition digit_value :: "char \<Rightarrow> nat option" where
  "digit_value c =
     (let n = (of_char c :: nat) in
      if 48 \<le> n \<and> n \<le> 57 then Some (n - 48)
      else if 97 \<le> n \<and> n \<le> 122 then Some (n - 87)
      else if 65 \<le> n \<and> n \<le> 90 then Some (n - 55)
      else None)"

definition is_digit_in :: "nat \<Rightarrow> char \<Rightarrow> bool" where
  "is_digit_in radix c = (case digit_value c of None \<Rightarrow> False | Some d \<Rightarrow> d < radix)"

definition digits_value :: "nat \<Rightarrow> string \<Rightarrow> nat" where
  "digits_value radix ds =
     foldl (\<lambda>acc c. acc * radix + (case digit_value c of None \<Rightarrow> 0 | Some d \<Rightarrow> d)) 0 ds"

text \<open>The sign: a leading \<open>-\<close> or \<open>+\<close> is taken off.\<close>

definition parse_sign :: "string \<Rightarrow> bool \<times> string" where
  "parse_sign s =
     (case s of
        [] \<Rightarrow> (False, [])
      | c # rest \<Rightarrow>
          if c = CHR ''-'' then (True, rest)
          else if c = CHR ''+'' then (False, rest)
          else (False, s))"

text \<open>The radix: 16 after \<^verbatim>\<open>0x\<close> or \<^verbatim>\<open>0X\<close>, which is taken off, and 10 otherwise.\<close>

definition parse_radix :: "string \<Rightarrow> nat \<times> string" where
  "parse_radix s = (if take 2 s = ''0x'' \<or> take 2 s = ''0X'' then (16, drop 2 s) else (10, s))"

definition parseInt :: "(rat \<Rightarrow> number) \<Rightarrow> string \<Rightarrow> number" where
  "parseInt rnd inp =
     (let (neg, s1) = parse_sign (dropWhile is_whitespace inp);
          (radix, s2) = parse_radix s1;
          ds = takeWhile (is_digit_in radix) s2
      in if ds = [] then NaN
         else rnd (of_int ((if neg then - 1 else 1) * int (digits_value radix ds))))"

text \<open>\<^verbatim>\<open>RtcRole\<close> of the signing library.\<close>

datatype rtc_role = PUBLISHER | SUBSCRIBER

text \<open>\<^verbatim>\<open>string | number\<close>, the user id of a request; the number is the one JSON carried.\<close>

datatype req_uid = ReqUidStr string | ReqUidNum rat

text \<open>
  The body of a request as \<^verbatim>\<open>TokenRequest\<close> declares it; a missing key is \<open>None\<close>. The
  role is kept as the string the caller sent.
\<close>

record token_request =
  req_appId :: "string option"
  req_appCertificate :: "string option"
  req_channelName :: "string option"
  req_uid :: "req_uid option"
  req_role :: "string option"
  req_expireTimeInSeconds :: "rat option"

text \<open>
  What \<^verbatim>\<open>await request.json()\<close> and the destructuring give: the fields of the body, or
  the error thrown (a body that is not JSON, or \<^verbatim>\<open>null\<close>).
\<close>

datatype request_body = BodyError js_error | Body token_request

text \<open>
  The server's side of the world: the clock (\<^verbatim>\<open>Date.now()\<close>, in milliseconds), the
  rounding of the runtime and the signing primitive
  \<^verbatim>\<open>RtcTokenBuilder.buildTokenWithUid\<close>, which returns a token or throws.
\<close>

record server_env =
  date_now :: int
  to_Number :: "rat \<Rightarrow> number"
  buildTokenWithUid ::
    "string \<Rightarrow> string \<Rightarrow> string \<Rightarrow> number \<Rightarrow> rtc_role \<Rightarrow> number \<Rightarrow> number \<Rightarrow> js_error + string"

text \<open>
  The object handed to \<^verbatim>\<open>NextResponse.json\<close>: \<^verbatim>\<open>{ error }\<close> or \<^verbatim>\<open>{ error, details }\<close>, or
  \<^verbatim>\<open>{ token, uid, channel, role, expireTime, generatedAt }\<close>.
\<close>

datatype payload =
    ErrorPayload string "string option"
  | TokenPayload string number string string number int

text \<open>\<^verbatim>\<open>NextResponse.json(body, { status })\<close>; the status is 200 when none is given.\<close>

datatype response = NextResponse_json (res_body: payload) (res_status: nat)

text \<open>The \<^verbatim>\<open>catch\<close> block of \<^verbatim>\<open>POST\<close>.\<close>

definition POST_catch :: "js_error \<Rightarrow> response" where
  "POST_catch err =
     NextResponse_json
       (ErrorPayload ''Failed to generate token''
          (if instanceof_Error err then err_message err else Some ''Unknown error''))
       500"

text \<open>\<^verbatim>\<open>typeof uid === 'string' ? parseInt(uid) || 0 : uid || 0\<close>\<close>

fun uidNum_of :: "(rat \<Rightarrow> number) \<Rightarrow> req_uid option \<Rightarrow> number" where
  "uidNum_of rnd (Some (ReqUidStr s)) =
     (if number_truthy (parseInt rnd s) then parseInt rnd s else Num 0)"
| "uidNum_of rnd (Some (ReqUidNum q)) = (if q \<noteq> 0 then Num q else Num 0)"
| "uidNum_of rnd None = Num 0"

text \<open>
  \<^verbatim>\<open>POST\<close>. \<^verbatim>\<open>Math.floor(Date.now() / 1000)\<close> is the integer quotient of the clock; the sum
  \<^verbatim>\<open>currentTimestamp + expireTimeInSeconds\<close> is rounded as the runtime does.
\<close>

definition POST :: "server_env \<Rightarrow> request_body \<Rightarrow> response" where
  "POST srv rb =
     (case rb of
        BodyError err \<Rightarrow> POST_catch err
      | Body b \<Rightarrow>
          (let role_str = (case req_role b of None \<Rightarrow> ''audience'' | Some r \<Rightarrow> r);
               expireTimeInSeconds = (case req_expireTimeInSeconds b of None \<Rightarrow> 3600 | Some n \<Rightarrow> n);
               aid = str_or (req_appId b) [];
               cert = str_or (req_appCertificate b) [];
               channelName = str_or (req_channelName b) []
           in
           if aid = [] \<or> cert = [] \<or> channelName = [] then
             NextResponse_json
               (ErrorPayload ''App ID, App Certificate, and Channel Name are required'' None) 400
           else if \<not> appIdPattern_test aid then
             NextResponse_json
               (ErrorPayload
                  ''Invalid App ID format. App ID should be a 32-character hexadecimal string.'' None)
               400
           else
             (let currentTimestamp = date_now srv div 1000;
                  privilegeExpiredTs = to_Number srv (of_int currentTimestamp + expireTimeInSeconds);
                  agoraRole = (if role_str = ''publisher'' then PUBLISHER else SUBSCRIBER);
                  uidNum = uidNum_of (to_Number srv) (req_uid b)
              in
              case buildTokenWithUid srv aid cert channelName uidNum agoraRole
                     privilegeExpiredTs privilegeExpiredTs of
                Inl err \<Rightarrow> POST_catch err
              | Inr tok \<Rightarrow>
                  NextResponse_json
                    (TokenPayload tok uidNum channelName role_str privilegeExpiredTs currentTimestamp)
                    200)))"

section \<open>Call logs\<close>

text \<open>A list of calls with no \<^verbatim>\<open>createClient\<close> among them.\<close>

definition no_createClient :: "call list \<Rightarrow> bool" where
  "no_createClient cs \<longleftrightarrow> (\<forall>m c. CreateClient m c \<notin> set cs)"

section \<open>Example sessions\<close>

text \<open>
  Concrete environments and configurations for the closed theorems below. In \<open>env0\<close> the
  page runs in a browser with nothing in local storage and nothing in the URL, every
  \<^verbatim>\<open>fetch\<close> rejects and the engine accepts every call.
\<close>

definition failed_to_fetch :: js_error where
  "failed_to_fetch = JsError True None (Some ''Failed to fetch'')"

definition env0 :: env where
  "env0 =
     \<lparr> window_defined = True,
       process_env = (\<lambda>k. None),
       localStorage_getItem = (\<lambda>k. None),
       location_search = [],
       random_uuid = ''00000000-0000-4000-8000-000000000000'',
       local_player = False,
       fetch = (\<lambda>log rq. NetworkError failed_to_fetch),
       engine_join = (\<lambda>log a c t u. Inr (UidNum 1001)),
       engine_publish = (\<lambda>log ts. None),
       engine_leave = (\<lambda>log. None),
       engine_createMicrophoneAudioTrack = (\<lambda>log. Inr (Track 1)),
       engine_createCameraVideoTrack = (\<lambda>log. Inr (Track 2)),
       track_play = (\<lambda>log t. None),
       track_stop = (\<lambda>log t. None),
       track_close = (\<lambda>log t. None) \<rparr>"

definition cfg0 :: agora_config where
  "cfg0 =
     \<lparr> appId = ''0123456789abcdef0123456789ABCDEF'',
       channel = ''demo'',
       token = None,
       uid = None,
       appCertificate = None,
       mode = None,
       codec = None \<rparr>"




definition cert0 :: string where
  "cert0 = ''fedcba9876543210fedcba9876543210''"

definition cfg_cert :: agora_config where
  "cfg_cert = cfg0 \<lparr> appCertificate := Some cert0 \<rparr>"

definition env_empty_token :: env where
  "env_empty_token =
     env0 \<lparr> fetch := (\<lambda>log rq.
               HttpResponse True 200
                 (Inr (JObj [(''code'', JNum 0),
                             (''data'', JObj [(''token'', JStr []),
                                             (''appid'', JStr ''0123456789abcdef0123456789ABCDEF'')])]))) \<rparr>"

definition env_get_down :: env where
  "env_get_down =
     env0 \<lparr> fetch := (\<lambda>log rq.
               if req_method rq = MGet then NetworkError failed_to_fetch
               else HttpResponse True 200 (Inr (JObj [(''token'', JStr ''T1'')]))) \<rparr>"

definition joined0 :: agora_client where
  "joined0 = (AgoraClient cfg0) \<lparr> client := Some (RtcClient Rtc Vp8) \<rparr>"

definition publishing0 :: agora_client where
  "publishing0 =
     joined0 \<lparr> localVideoTrack := Some (Track 2), localAudioTrack := Some (Track 1), isPublisher := True \<rparr>"

definition stop_failed :: js_error where
  "stop_failed = JsError True None (Some ''track is already closed'')"

definition env_stop_fails :: env where
  "env_stop_fails = env0 \<lparr> track_stop := (\<lambda>log t. if t = Track 2 then Some stop_failed else None) \<rparr>"

definition leave_failed :: js_error where
  "leave_failed = JsError True (Some ''WS_ABORT'') (Some ''connection lost'')"

definition env_leave_fails :: env where
  "env_leave_fails = env0 \<lparr> engine_leave := (\<lambda>log. Some leave_failed) \<rparr>"

definition env_cached_cert :: env where
  "env_cached_cert =
     env0 \<lparr> localStorage_getItem := (\<lambda>k. if k = ''agora_app_certificate'' then Some cert0 else None) \<rparr>"

definition srv0 :: server_env where
  "srv0 =
     \<lparr> date_now = 1700000000123,
       to_Number = Num,
       buildTokenWithUid = (\<lambda>aid cert chan u r e1 e2. Inr (''007'' @ replicate 60 (CHR ''x''))) \<rparr>"

definition body31 :: token_request where
  "body31 =
     \<lparr> req_appId = Some ''0123456789abcdef0123456789abcde'',
       req_appCertificate = Some ''fedcba9876543210fedcba9876543210'',
       req_channelName = Some ''demo'',
       req_uid = Some (ReqUidStr ''42''),
       req_role = Some ''publisher'',
       req_expireTimeInSeconds = None \<rparr>"

definition body32 :: token_request where
  "body32 = body31 \<lparr> req_appId := Some ''0123456789abcdef0123456789abcdef'' \<rparr>"

definition body_fraction :: token_request where
  "body_fraction = body32 \<lparr> req_uid := Some (ReqUidNum (3 / 2)) \<rparr>"

definition not_json :: js_error where
  "not_json = JsError True None (Some ''Unexpected end of JSON input'')"

section \<open>Theorems\<close>

subsection \<open>Credential validation\<close>

lemma versionPattern_test_iff:
  "versionPattern_test s \<longleftrightarrow> take 3 s = ''006'' \<or> take 3 s = ''007''"
proof (cases s)
  case Nil
  then show ?thesis by simp
next
  case (Cons a s1)
  note s = this
  show ?thesis
  proof (cases s1)
    case Nil
    with s show ?thesis by simp
  next
    case (Cons b s2)
    note s1 = this
    show ?thesis
    proof (cases s2)
      case Nil
      with s s1 show ?thesis by simp
    next
      case (Cons c s3)
      with s s1 show ?thesis by auto
    qed
  qed
qed

text \<open>
  Claim C9. \<^verbatim>\<open>validateAgoraToken\<close> (the spec's \<open>isValidToken\<close>) returns true exactly when
  its argument is a string that starts with \<open>006\<close> or \<open>007\<close> and is longer than 50; it
  returns true on \<open>007\<close> followed by sixty \<open>x\<close>.
\<close>

theorem validateAgoraToken_iff:
  "(validateAgoraToken v \<longleftrightarrow>
      (\<exists>s. v = Some (JStr s) \<and> (take 3 s = ''006'' \<or> take 3 s = ''007'') \<and> length s > 50))
   \<and> validateAgoraToken (Some (JStr (''007'' @ replicate 60 (CHR ''x''))))"
proof
  show "validateAgoraToken v \<longleftrightarrow>
      (\<exists>s. v = Some (JStr s) \<and> (take 3 s = ''006'' \<or> take 3 s = ''007'') \<and> length s > 50)"
  proof (cases v)
    case None
    then show ?thesis by simp
  next
    case (Some j)
    then show ?thesis
      by (cases j) (auto simp: versionPattern_test_iff)
  qed
next
  show "validateAgoraToken (Some (JStr (''007'' @ replicate 60 (CHR ''x''))))"
    by simp
qed

subsection \<open>Errors of join\<close>




lemma trim_appId0: "trim ''0123456789abcdef0123456789ABCDEF'' = ''0123456789abcdef0123456789ABCDEF''"
  by (simp add: trim_def is_whitespace_def)

lemma trim_demo: "trim ''demo'' = ''demo''"
  by (simp add: trim_def is_whitespace_def)

lemma appIdPattern_appId0: "appIdPattern_test ''0123456789abcdef0123456789ABCDEF''"
  by (simp add: appIdPattern_test_def is_hex_def)




subsection \<open>The calls a function makes\<close>

lemma generateTokenFromServer_log:
  "snd (generateTokenFromServer e aid cert ch u r log) = log @ [Fetch (server_request aid cert ch u r)]"
  by (simp add: generateTokenFromServer_def Let_def split: fetch_result.splits sum.splits)

lemma generateTokenFromBackend_log:
  "snd (generateTokenFromBackend e aid cert ch u r x log) = log @ [Fetch (backend_request aid cert ch u r x)]"
  by (simp add: generateTokenFromBackend_def Let_def split: fetch_result.splits sum.splits)

lemma agoraGetAppData_fetch_log:
  "snd (agoraGetAppData_fetch e url d log) = log @ [Fetch (Request MPost url [] (Some d))]"
  by (simp add: agoraGetAppData_fetch_def Let_def split: fetch_result.splits sum.splits)

lemma agoraGetAppData_log:
  "\<exists>fs. snd (agoraGetAppData e u ch log) = log @ map Fetch fs"
proof -
  have a: "\<And>url d. \<exists>fs. snd (agoraGetAppData_fetch e url d log) = log @ map Fetch fs"
    by (metis agoraGetAppData_fetch_log list.simps(8,9))
  have b: "\<exists>fs. log = log @ map Fetch fs"
    by (rule exI [of _ "[]"]) simp
  show ?thesis
    unfolding agoraGetAppData_def Let_def
    by (simp add: a b split: prod.splits)
qed

lemma generateToken_log:
  "\<exists>fs. snd (generateToken e cfg r log) = log @ map Fetch fs"
proof (cases "str_or (appCertificate cfg) [] \<noteq> []")
  case True
  let ?g = "generateTokenFromServer e (appId cfg) (str_or (appCertificate cfg) []) (channel cfg)
                (uid_or_zero (uid cfg)) r log"
  obtain res log1 where g: "?g = (res, log1)" by (cases ?g)
  have l1: "log1 = log @ [Fetch (server_request (appId cfg) (str_or (appCertificate cfg) []) (channel cfg)
                (uid_or_zero (uid cfg)) r)]"
    using generateTokenFromServer_log [of e "appId cfg" "str_or (appCertificate cfg) []" "channel cfg"
        "uid_or_zero (uid cfg)" r log] g by simp
  show ?thesis
  proof (cases res)
    case (Inr t)
    then have "snd (generateToken e cfg r log) = log @ map Fetch [server_request (appId cfg) (str_or (appCertificate cfg) []) (channel cfg)
                (uid_or_zero (uid cfg)) r]"
      using True g l1 by (simp add: generateToken_def)
    then show ?thesis by blast
  next
    case (Inl err)
    then have "snd (generateToken e cfg r log) =
        log @ map Fetch [server_request (appId cfg) (str_or (appCertificate cfg) []) (channel cfg)
                (uid_or_zero (uid cfg)) r,
              backend_request (appId cfg) (str_or (appCertificate cfg) []) (channel cfg)
                (uid_or_zero (uid cfg)) r 3600]"
      using True g l1 by (simp add: generateToken_def generateTokenFromBackend_log)
    then show ?thesis by blast
  qed
next
  case False
  obtain fs where fs: "snd (agoraGetAppData e (uid_or_zero (uid cfg)) (channel cfg) log) = log @ map Fetch fs"
    using agoraGetAppData_log by blast
  have "snd (generateToken e cfg r log) = log @ map Fetch fs"
    using False fs by (auto simp: generateToken_def split: prod.splits sum.splits)
  then show ?thesis by blast
qed


lemma no_createClient_simps [simp]:
  "no_createClient []"
  "no_createClient (x # xs) \<longleftrightarrow> (\<forall>m c. x \<noteq> CreateClient m c) \<and> no_createClient xs"
  "no_createClient (xs @ ys) \<longleftrightarrow> no_createClient xs \<and> no_createClient ys"
  by (auto simp: no_createClient_def)








subsection \<open>The client that is created\<close>



subsection \<open>Validation before joining\<close>

text \<open>
  Claim C5. With an empty or blank App ID, an empty or blank channel, or an App ID that
  is not 32 hexadecimal digits, \<^verbatim>\<open>join\<close> fails with the matching error, changes nothing in
  the controller and makes no call: the log of network and engine calls is as before,
  so neither a token request nor the engine's join was issued.
\<close>

theorem join_validation_fails_fast:
  "(appId (config s) = [] \<or> trim (appId (config s)) = [] \<longrightarrow>
      join e r s log = (Inl (new_Error ''App ID is required and cannot be empty''), s, log))
   \<and> (trim (appId (config s)) \<noteq> [] \<and> (channel (config s) = [] \<or> trim (channel (config s)) = []) \<longrightarrow>
      join e r s log = (Inl (new_Error ''Channel name is required and cannot be empty''), s, log))
   \<and> (trim (appId (config s)) \<noteq> [] \<and> trim (channel (config s)) \<noteq> []
        \<and> \<not> appIdPattern_test (trim (appId (config s))) \<longrightarrow>
      join e r s log =
        (Inl (new_Error ''Invalid App ID format. App ID should be a 32-character hexadecimal string.''),
         s, log))"
proof -
  have t0: "trim [] = []" by (simp add: trim_def)
  show ?thesis
    by (auto simp: join_def t0)
qed

lemma joinAs_validation_no_calls:
  assumes "trim (appId (config s)) = [] \<or> trim (channel (config s)) = []
           \<or> \<not> appIdPattern_test (trim (appId (config s)))"
  shows "snd (snd (joinAsAudience e s log)) = log \<and> snd (snd (joinAsPublisher e s log)) = log"
  using assms by (auto simp: joinAsAudience_def joinAsPublisher_def join_def)

theorem join_validation_fails_fast_witness:
  "join env0 Audience (AgoraClient (cfg0 \<lparr> channel := [] \<rparr>)) [] =
     (Inl (new_Error ''Channel name is required and cannot be empty''),
      AgoraClient (cfg0 \<lparr> channel := [] \<rparr>), [])"
proof -
  let ?s = "AgoraClient (cfg0 \<lparr> channel := [] \<rparr>)"
  have a: "trim (appId (config ?s)) \<noteq> []"
    by (simp add: AgoraClient_def cfg0_def trim_appId0)
  have c: "channel (config ?s) = []"
    by (simp add: AgoraClient_def cfg0_def)
  show ?thesis
    using join_validation_fails_fast [of ?s env0 Audience "[]"] a c by simp
qed

subsection \<open>Token generation\<close>

lemma generateToken_server_ok:
  assumes "c \<noteq> []"
    and "generateTokenFromServer e a c ch (uid_or_zero uo) r log = (Inr t, log1)"
  shows "generateToken e \<lparr> appId = a, channel = ch, token = tk, uid = uo, appCertificate = Some c,
            mode = m, codec = cd \<rparr> r log = (Inr t, log1)"
  using assms by (simp add: generateToken_def str_or_def)

lemma generateToken_server_fails:
  assumes "c \<noteq> []"
    and "fst (generateTokenFromServer e a c ch (uid_or_zero uo) r log) = Inl err"
  shows "generateToken e \<lparr> appId = a, channel = ch, token = tk, uid = uo, appCertificate = Some c,
            mode = m, codec = cd \<rparr> r log =
         generateTokenFromBackend e a c ch (uid_or_zero uo) r 3600
           (log @ [Fetch (server_request a c ch (uid_or_zero uo) r)])"
proof -
  obtain res log1 where g: "generateTokenFromServer e a c ch (uid_or_zero uo) r log = (res, log1)"
    by (cases "generateTokenFromServer e a c ch (uid_or_zero uo) r log")
  have l: "log1 = log @ [Fetch (server_request a c ch (uid_or_zero uo) r)]"
    using generateTokenFromServer_log [of e a c ch "uid_or_zero uo" r log] g by simp
  have r: "res = Inl err" using assms(2) g by simp
  show ?thesis
    using assms(1) g l r by (simp add: generateToken_def str_or_def)
qed

lemma generateTokenFromServer_fails:
  assumes "(\<exists>err. fetch e log (server_request a c ch u r) = NetworkError err)
         \<or> (\<exists>st body. fetch e log (server_request a c ch u r) = HttpResponse False st body)
         \<or> (\<exists>st err. fetch e log (server_request a c ch u r) = HttpResponse True st (Inl err))
         \<or> (\<exists>st data. fetch e log (server_request a c ch u r) = HttpResponse True st (Inr data)
               \<and> get_prop (Some data) ''code'' \<noteq> Inr (Some (JNum 0)))"
  shows "\<exists>err. fst (generateTokenFromServer e a c ch u r log) = Inl err"
  using assms
  by (auto simp: generateTokenFromServer_def Let_def split: sum.splits)

text \<open>
  Claim C1, amended. With a certificate in the configuration, \<^verbatim>\<open>generateToken\<close> first
  sends the query-string GET (\<^verbatim>\<open>generateTokenFromServer\<close>). When that request fails with a
  network error, a response that is not ok, a body that is not JSON or a body whose
  \<^verbatim>\<open>code\<close> is not 0, it sends the JSON POST (\<^verbatim>\<open>generateTokenFromBackend\<close>) with the same
  credentials and returns what that gives. In particular, when the GET fails with a
  network error and the POST answers with token \<open>T1\<close>, the result is \<open>T1\<close>.
\<close>

theorem generateToken_get_then_post:
  assumes cert: "c \<noteq> []"
  shows "(\<exists>rest. snd (generateToken e \<lparr> appId = a, channel = ch, token = tk, uid = uo,
                     appCertificate = Some c, mode = m, codec = cd \<rparr> r log) =
             log @ Fetch (server_request a c ch (uid_or_zero uo) r) # rest)
       \<and> ((\<exists>err. fst (generateTokenFromServer e a c ch (uid_or_zero uo) r log) = Inl err)
          \<longrightarrow>
            generateToken e \<lparr> appId = a, channel = ch, token = tk, uid = uo,
                appCertificate = Some c, mode = m, codec = cd \<rparr> r log =
              generateTokenFromBackend e a c ch (uid_or_zero uo) r 3600
                (log @ [Fetch (server_request a c ch (uid_or_zero uo) r)])
          \<and> snd (generateToken e \<lparr> appId = a, channel = ch, token = tk, uid = uo,
                appCertificate = Some c, mode = m, codec = cd \<rparr> r log) =
              log @ [Fetch (server_request a c ch (uid_or_zero uo) r),
                     Fetch (backend_request a c ch (uid_or_zero uo) r 3600)])
       \<and> ((\<exists>err. fetch e log (server_request a c ch (uid_or_zero uo) r) = NetworkError err)
           \<or> (\<exists>st body. fetch e log (server_request a c ch (uid_or_zero uo) r) = HttpResponse False st body)
           \<or> (\<exists>st err. fetch e log (server_request a c ch (uid_or_zero uo) r) = HttpResponse True st (Inl err))
           \<or> (\<exists>st data. fetch e log (server_request a c ch (uid_or_zero uo) r) = HttpResponse True st (Inr data)
                 \<and> get_prop (Some data) ''code'' \<noteq> Inr (Some (JNum 0)))
          \<longrightarrow>
            generateToken e \<lparr> appId = a, channel = ch, token = tk, uid = uo,
                appCertificate = Some c, mode = m, codec = cd \<rparr> r log =
              generateTokenFromBackend e a c ch (uid_or_zero uo) r 3600
                (log @ [Fetch (server_request a c ch (uid_or_zero uo) r)])
          \<and> snd (generateToken e \<lparr> appId = a, channel = ch, token = tk, uid = uo,
                appCertificate = Some c, mode = m, codec = cd \<rparr> r log) =
              log @ [Fetch (server_request a c ch (uid_or_zero uo) r),
                     Fetch (backend_request a c ch (uid_or_zero uo) r 3600)])
       \<and> ((\<exists>err. fetch e log (server_request a c ch (uid_or_zero uo) r) = NetworkError err)
           \<and> (\<exists>st. fetch e (log @ [Fetch (server_request a c ch (uid_or_zero uo) r)])
                     (backend_request a c ch (uid_or_zero uo) r 3600) =
                   HttpResponse True st (Inr (JObj [(''token'', JStr ''T1'')])))
          \<longrightarrow>
            fst (generateToken e \<lparr> appId = a, channel = ch, token = tk, uid = uo,
                appCertificate = Some c, mode = m, codec = cd \<rparr> r log) = Inr (Some (JStr ''T1'')))"
    (is "?first \<and> (?thrown \<longrightarrow> ?fallback) \<and> (?fails \<longrightarrow> ?fallback) \<and> (?down \<and> ?t1 \<longrightarrow> ?res)")
proof -
  let ?cfg = "\<lparr> appId = a, channel = ch, token = tk, uid = uo,
                     appCertificate = Some c, mode = m, codec = cd \<rparr>"
  let ?u = "uid_or_zero uo"
  let ?log1 = "log @ [Fetch (server_request a c ch ?u r)]"
  have ft: ?fallback if th: ?thrown
  proof -
    obtain err where "fst (generateTokenFromServer e a c ch ?u r log) = Inl err"
      using th by blast
    then have "generateToken e ?cfg r log = generateTokenFromBackend e a c ch ?u r 3600 ?log1"
      using generateToken_server_fails [OF cert] by blast
    then show ?thesis by (simp add: generateTokenFromBackend_log)
  qed
  have fb: ?fallback if f: ?fails
    using ft generateTokenFromServer_fails [OF f] by blast
  have 1: ?first
  proof (cases "fst (generateTokenFromServer e a c ch ?u r log)")
    case (Inl err)
    then have "generateToken e ?cfg r log = generateTokenFromBackend e a c ch ?u r 3600 ?log1"
      using generateToken_server_fails [OF cert] by blast
    then have "snd (generateToken e ?cfg r log) =
        log @ Fetch (server_request a c ch ?u r) # [Fetch (backend_request a c ch ?u r 3600)]"
      by (simp add: generateTokenFromBackend_log)
    then show ?thesis by blast
  next
    case (Inr t)
    then have "generateTokenFromServer e a c ch ?u r log = (Inr t, ?log1)"
      using generateTokenFromServer_log [of e a c ch ?u r log]
      by (metis prod.collapse)
    then have "generateToken e ?cfg r log = (Inr t, ?log1)"
      using generateToken_server_ok [OF cert] by blast
    then have "snd (generateToken e ?cfg r log) = log @ Fetch (server_request a c ch ?u r) # []"
      by simp
    then show ?thesis by blast
  qed
  have 3: ?res if d: "?down \<and> ?t1"
  proof -
    from d have ?fails by blast
    then have g: "generateToken e ?cfg r log = generateTokenFromBackend e a c ch ?u r 3600 ?log1"
      using fb by blast
    from d obtain st where
      "fetch e ?log1 (backend_request a c ch ?u r 3600) =
         HttpResponse True st (Inr (JObj [(''token'', JStr ''T1'')]))"
      by blast
    then have "fst (generateTokenFromBackend e a c ch ?u r 3600 ?log1) = Inr (Some (JStr ''T1''))"
      by (simp add: generateTokenFromBackend_def Let_def)
    with g show ?thesis by simp
  qed
  have i2: "?thrown \<longrightarrow> ?fallback" by (rule impI) (rule ft)
  have i3: "?fails \<longrightarrow> ?fallback" by (rule impI) (rule fb)
  have i4: "?down \<and> ?t1 \<longrightarrow> ?res" by (rule impI) (rule 3)
  show ?thesis
    by (rule conjI [OF 1 conjI [OF i2 conjI [OF i3 i4]]])
qed

text \<open>
  The claim as the specification words it names the JSON POST as the first endpoint and
  the query-string GET as the fallback. The calls of a run where the GET is down show the
  opposite order.
\<close>

theorem generateToken_primary_is_post_counterexample:
  "snd (generateToken env_get_down cfg_cert Audience []) =
     [Fetch (Request MGet ''/api/agora/token''
               [(''appId'', ''0123456789abcdef0123456789ABCDEF''),
                (''appCertificate'', ''fedcba9876543210fedcba9876543210''),
                (''channel'', ''demo''), (''uid'', ''0''), (''role'', ''audience'')] None),
      Fetch (Request MPost ''/api/agora/token'' []
               (Some (JObj [(''appId'', JStr ''0123456789abcdef0123456789ABCDEF''),
                            (''appCertificate'', JStr ''fedcba9876543210fedcba9876543210''),
                            (''channelName'', JStr ''demo''), (''uid'', JNum 0),
                            (''role'', JStr ''audience''), (''expireTimeInSeconds'', JNum 3600)])))]"
  by (simp add: generateToken_def generateTokenFromServer_def generateTokenFromBackend_def
      server_request_def backend_request_def env_get_down_def env0_def cfg_cert_def cfg0_def cert0_def
      str_or_def Let_def show_int_def show_nat.simps)

theorem generateToken_get_then_post_witness:
  "fst (generateToken env_get_down cfg_cert Audience []) = Inr (Some (JStr ''T1''))"
proof -
  have c: "cert0 \<noteq> []" by (simp add: cert0_def)
  have cfg: "cfg_cert = \<lparr> appId = ''0123456789abcdef0123456789ABCDEF'', channel = ''demo'', token = None,
      uid = None, appCertificate = Some cert0, mode = None, codec = None \<rparr>"
    by (simp add: cfg_cert_def cfg0_def)
  have d: "\<exists>err. fetch env_get_down [] (server_request ''0123456789abcdef0123456789ABCDEF'' cert0 ''demo''
              (uid_or_zero None) Audience) = NetworkError err"
    by (simp add: env_get_down_def env0_def server_request_def)
  have p: "\<exists>st. fetch env_get_down
             ([] @ [Fetch (server_request ''0123456789abcdef0123456789ABCDEF'' cert0 ''demo''
                      (uid_or_zero None) Audience)])
             (backend_request ''0123456789abcdef0123456789ABCDEF'' cert0 ''demo''
                (uid_or_zero None) Audience 3600) =
           HttpResponse True st (Inr (JObj [(''token'', JStr ''T1'')]))"
    by (simp add: env_get_down_def env0_def backend_request_def)
  note t = generateToken_get_then_post [OF c, where e = env_get_down and log = "[]"
        and a = "''0123456789abcdef0123456789ABCDEF''" and ch = "''demo''" and uo = None
        and r = Audience and tk = None and m = None and cd = None]
  note t1 = conjunct2 [OF conjunct2 [OF conjunct2 [OF t]]]
  show ?thesis
    unfolding cfg by (rule mp [OF t1 conjI [OF d p]])
qed

lemma truthy_not_empty:
  "truthy t \<Longrightarrow> t \<noteq> Some (JStr []) \<and> t \<noteq> Some JNull \<and> t \<noteq> None"
  by (cases t rule: truthy.cases) simp_all

lemma generateToken_no_certificate:
  assumes "str_or co [] = []"
  shows "generateToken e \<lparr> appId = a, channel = ch, token = tk, uid = uo, appCertificate = co,
            mode = m, codec = cd \<rparr> r log =
         (case agoraGetAppData e (uid_or_zero uo) ch log of
            (Inl err, log1) \<Rightarrow> (Inl err, log1)
          | (Inr serverToken, log1) \<Rightarrow>
              if truthy serverToken then (Inr serverToken, log1)
              else (Inl (new_Error ''No token generation method available. Please provide App Certificate.''),
                    log1))"
  using assms by (simp add: generateToken_def)

lemma generateToken_vendor_request:
  assumes nocert: "str_or co [] = []"
    and rq: "agoraGetAppData e (uid_or_zero uo) ch log =
               agoraGetAppData_fetch e url d log"
  shows "snd (generateToken e \<lparr> appId = a, channel = ch, token = tk, uid = uo, appCertificate = co,
            mode = m, codec = cd \<rparr> r log) = log @ [Fetch (Request MPost url [] (Some d))]"
    and "fetch e log (Request MPost url [] (Some d)) = NetworkError err \<Longrightarrow>
         fst (generateToken e \<lparr> appId = a, channel = ch, token = tk, uid = uo, appCertificate = co,
            mode = m, codec = cd \<rparr> r log) = Inl err"
    and "fetch e log (Request MPost url [] (Some d)) = HttpResponse ok st (Inl err) \<Longrightarrow>
         fst (generateToken e \<lparr> appId = a, channel = ch, token = tk, uid = uo, appCertificate = co,
            mode = m, codec = cd \<rparr> r log) = Inl err"
    and "fetch e log (Request MPost url [] (Some d)) = HttpResponse ok st (Inr JNull) \<Longrightarrow>
         fst (generateToken e \<lparr> appId = a, channel = ch, token = tk, uid = uo, appCertificate = co,
            mode = m, codec = cd \<rparr> r log) = Inl TypeError"
    and "fetch e log (Request MPost url [] (Some d)) = HttpResponse ok st (Inr resp) \<Longrightarrow>
         get_prop (Some resp) ''code'' = Inr c \<Longrightarrow> c \<noteq> Some (JNum 0) \<Longrightarrow>
         get_prop (Some resp) ''message'' = Inr msg \<Longrightarrow>
         fst (generateToken e \<lparr> appId = a, channel = ch, token = tk, uid = uo, appCertificate = co,
            mode = m, codec = cd \<rparr> r log) =
           Inl (error_or msg ''Generate token error, please check your appid and appcertificate parameters'')"
    and "fetch e log (Request MPost url [] (Some d)) = HttpResponse ok st (Inr resp) \<Longrightarrow>
         get_prop (Some resp) ''code'' = Inr (Some (JNum 0)) \<Longrightarrow>
         get_prop (Some resp) ''data'' = Inr dat \<Longrightarrow>
         get_prop (js_or dat (Some (JObj []))) ''token'' = Inr tok \<Longrightarrow>
         fst (generateToken e \<lparr> appId = a, channel = ch, token = tk, uid = uo, appCertificate = co,
            mode = m, codec = cd \<rparr> r log) =
           (if truthy tok then Inr tok
            else Inl (new_Error ''No token generation method available. Please provide App Certificate.''))"
proof -
  let ?cfg = "\<lparr> appId = a, channel = ch, token = tk, uid = uo, appCertificate = co,
            mode = m, codec = cd \<rparr>"
  note g = generateToken_no_certificate [OF nocert, of e a ch tk uo m cd r log]
  show "snd (generateToken e ?cfg r log) = log @ [Fetch (Request MPost url [] (Some d))]"
    unfolding g rq
    using agoraGetAppData_fetch_log [of e url d log]
    by (auto split: prod.splits sum.splits)
  show "fst (generateToken e ?cfg r log) = Inl err"
    if "fetch e log (Request MPost url [] (Some d)) = NetworkError err"
    unfolding g rq using that by (simp add: agoraGetAppData_fetch_def Let_def)
  show "fst (generateToken e ?cfg r log) = Inl err"
    if "fetch e log (Request MPost url [] (Some d)) = HttpResponse ok st (Inl err)"
    unfolding g rq using that by (simp add: agoraGetAppData_fetch_def Let_def)
  show "fst (generateToken e ?cfg r log) = Inl TypeError"
    if "fetch e log (Request MPost url [] (Some d)) = HttpResponse ok st (Inr JNull)"
    unfolding g rq using that by (simp add: agoraGetAppData_fetch_def Let_def)
  show "fst (generateToken e ?cfg r log) =
           Inl (error_or msg ''Generate token error, please check your appid and appcertificate parameters'')"
    if "fetch e log (Request MPost url [] (Some d)) = HttpResponse ok st (Inr resp)"
      "get_prop (Some resp) ''code'' = Inr c" "c \<noteq> Some (JNum 0)"
      "get_prop (Some resp) ''message'' = Inr msg"
    unfolding g rq using that by (simp add: agoraGetAppData_fetch_def Let_def)
  show "fst (generateToken e ?cfg r log) =
           (if truthy tok then Inr tok
            else Inl (new_Error ''No token generation method available. Please provide App Certificate.''))"
    if "fetch e log (Request MPost url [] (Some d)) = HttpResponse ok st (Inr resp)"
      "get_prop (Some resp) ''code'' = Inr (Some (JNum 0))"
      "get_prop (Some resp) ''data'' = Inr dat"
      "get_prop (js_or dat (Some (JObj []))) ''token'' = Inr tok"
    unfolding g rq using that by (simp add: agoraGetAppData_fetch_def Let_def js_or_def)
qed

text \<open>
  Claim C2, amended. With no certificate in the configuration, \<^verbatim>\<open>generateToken\<close> turns to
  the vendor's server: the encrypted-credential request when the URL carries both
  \<open>encryptedId\<close> and \<open>encryptedSecret\<close>, otherwise the direct-certificate request with the
  locally cached credentials when a cached certificate exists, and no request at all
  when none exists. When no request is made, or the answer has code 0 and no token,
  \<^verbatim>\<open>generateToken\<close> fails with exactly ``No token generation method available. Please
  provide App Certificate.''. When the request itself fails (the network, a body that
  does not decode or is \<^verbatim>\<open>null\<close>, a code other than 0), \<^verbatim>\<open>generateToken\<close> fails with the error
  of that failure. A token it returns on this path is never empty.
\<close>

theorem generateToken_without_certificate:
  fixes e :: env and co encryptedId encryptedSecret :: "string option"
    and appid certificate a ch :: string and uo :: "uid option" and r :: role and log :: "call list"
    and tk :: "string option" and m :: "mode option" and cd :: "codec option"
  defines "enc \<equiv> str_or encryptedId [] \<noteq> [] \<and> str_or encryptedSecret [] \<noteq> []"
  defines "rq \<equiv>
      (if enc then
         Request MPost (BASE_URL e @ ''/v1/webdemo/encrypted/token'') []
           (Some (encrypted_data e ch (str_or encryptedId []) (str_or encryptedSecret [])))
       else
         Request MPost (BASE_URL e @ ''/v2/token/generate'') []
           (Some (certificate_data appid certificate ch (uid_or_zero uo))))"
    and "res \<equiv> generateToken e \<lparr> appId = a, channel = ch, token = tk, uid = uo, appCertificate = co,
                   mode = m, codec = cd \<rparr> r log"
  assumes nocert: "str_or co [] = []"
    and url: "getEncryptFromUrl e = (encryptedId, encryptedSecret)"
    and loc: "getOptionsFromLocal e = (appid, certificate)"
  shows "(\<not> enc \<and> certificate = [] \<longrightarrow>
            res = (Inl (new_Error ''No token generation method available. Please provide App Certificate.''),
                   log))
       \<and> (enc \<or> certificate \<noteq> [] \<longrightarrow>
            snd res = log @ [Fetch rq]
          \<and> (\<forall>err. fetch e log rq = NetworkError err \<longrightarrow> fst res = Inl err)
          \<and> (\<forall>ok st err. fetch e log rq = HttpResponse ok st (Inl err) \<longrightarrow> fst res = Inl err)
          \<and> (\<forall>ok st. fetch e log rq = HttpResponse ok st (Inr JNull) \<longrightarrow> fst res = Inl TypeError)
          \<and> (\<forall>ok st resp c msg.
                fetch e log rq = HttpResponse ok st (Inr resp)
                \<and> get_prop (Some resp) ''code'' = Inr c \<and> c \<noteq> Some (JNum 0)
                \<and> get_prop (Some resp) ''message'' = Inr msg \<longrightarrow>
                fst res =
                  Inl (error_or msg
                         ''Generate token error, please check your appid and appcertificate parameters''))
          \<and> (\<forall>ok st resp dat tok.
                fetch e log rq = HttpResponse ok st (Inr resp)
                \<and> get_prop (Some resp) ''code'' = Inr (Some (JNum 0))
                \<and> get_prop (Some resp) ''data'' = Inr dat
                \<and> get_prop (js_or dat (Some (JObj []))) ''token'' = Inr tok \<longrightarrow>
                fst res =
                  (if truthy tok then Inr tok
                   else Inl (new_Error
                          ''No token generation method available. Please provide App Certificate.''))))
       \<and> (\<forall>t. fst res = Inr t \<longrightarrow>
            truthy t \<and> t \<noteq> Some (JStr []) \<and> t \<noteq> Some JNull \<and> t \<noteq> None)"
    (is "(?nothing \<longrightarrow> ?notoken) \<and> (?asked \<longrightarrow> ?answer) \<and> ?nonempty")
proof -
  let ?cfg = "\<lparr> appId = a, channel = ch, token = tk, uid = uo, appCertificate = co,
                   mode = m, codec = cd \<rparr>"
  note g = generateToken_no_certificate [OF nocert, of e a ch tk uo m cd r log]
  have i1: "?nothing \<longrightarrow> ?notoken"
    unfolding res_def g enc_def by (auto simp: agoraGetAppData_def url loc)
  have i2: "?asked \<longrightarrow> ?answer"
  proof (rule impI)
    assume asked: ?asked
    show ?answer
    proof (cases enc)
      case True
      let ?url = "BASE_URL e @ ''/v1/webdemo/encrypted/token''"
      let ?d = "encrypted_data e ch (str_or encryptedId []) (str_or encryptedSecret [])"
      have r: "rq = Request MPost ?url [] (Some ?d)"
        using True by (simp add: rq_def)
      have ag: "agoraGetAppData e (uid_or_zero uo) ch log = agoraGetAppData_fetch e ?url ?d log"
        using True by (simp add: agoraGetAppData_def url loc enc_def)
      note v = generateToken_vendor_request [OF nocert ag, where a = a and tk = tk and m = m
          and cd = cd and r = r, folded res_def]
      show ?thesis
        unfolding r by (intro conjI allI impI; (elim conjE)?) (rule v; assumption)+
    next
      case False
      let ?url = "BASE_URL e @ ''/v2/token/generate''"
      let ?d = "certificate_data appid certificate ch (uid_or_zero uo)"
      have r: "rq = Request MPost ?url [] (Some ?d)"
        using False by (simp add: rq_def)
      have ne: "certificate \<noteq> []" using asked False by simp
      have ag: "agoraGetAppData e (uid_or_zero uo) ch log = agoraGetAppData_fetch e ?url ?d log"
        using False ne by (auto simp: agoraGetAppData_def url loc enc_def)
      note v = generateToken_vendor_request [OF nocert ag, where a = a and tk = tk and m = m
          and cd = cd and r = r, folded res_def]
      show ?thesis
        unfolding r by (intro conjI allI impI; (elim conjE)?) (rule v; assumption)+
    qed
  qed
  have i3: ?nonempty
    unfolding res_def g using truthy_not_empty by (auto split: prod.splits sum.splits if_splits)
  show ?thesis
    by (rule conjI [OF i1 conjI [OF i2 i3]])
qed

text \<open>
  With a certificate, the vendor's server is not tried after both signing endpoints
  failed: the call fails with the error of the second endpoint, after two requests. With
  a certificate the token is returned as the endpoint sent it, also when it is the empty
  string. And with no certificate in the configuration but one in local storage, a
  vendor request that the network rejects ends the call with the network's error.
\<close>

theorem generateToken_demo_after_endpoints_counterexample:
  "generateToken env0 cfg_cert Audience [] =
     (Inl (JsError True None (Some ''Failed to fetch'')),
      [Fetch (Request MGet ''/api/agora/token''
               [(''appId'', ''0123456789abcdef0123456789ABCDEF''),
                (''appCertificate'', ''fedcba9876543210fedcba9876543210''),
                (''channel'', ''demo''), (''uid'', ''0''), (''role'', ''audience'')] None),
       Fetch (Request MPost ''/api/agora/token'' []
               (Some (JObj [(''appId'', JStr ''0123456789abcdef0123456789ABCDEF''),
                            (''appCertificate'', JStr ''fedcba9876543210fedcba9876543210''),
                            (''channelName'', JStr ''demo''), (''uid'', JNum 0),
                            (''role'', JStr ''audience''), (''expireTimeInSeconds'', JNum 3600)])))])
   \<and> fst (generateToken env0 cfg_cert Audience []) \<noteq>
       Inl (new_Error ''No token generation method available. Please provide App Certificate.'')
   \<and> fst (generateToken env_empty_token cfg_cert Audience []) = Inr (Some (JStr []))
   \<and> fst (generateToken env_cached_cert cfg0 Audience []) = Inl (JsError True None (Some ''Failed to fetch''))"
  by (simp add: generateToken_def generateTokenFromServer_def generateTokenFromBackend_def
      agoraGetAppData_def agoraGetAppData_fetch_def getOptionsFromLocal_def getEncryptFromUrl_def
      server_request_def backend_request_def env_empty_token_def env_cached_cert_def env0_def
      cfg_cert_def cfg0_def cert0_def failed_to_fetch_def new_Error_def str_or_def Let_def
      show_int_def show_nat.simps)

text \<open>
  Nothing cached and nothing in the URL: no request, and the error of the claim. A cached
  certificate and a network that rejects: one request, and the network's error.
\<close>

theorem generateToken_without_certificate_witness:
  "generateToken env0 cfg0 Audience [] =
     (Inl (new_Error ''No token generation method available. Please provide App Certificate.''), [])
   \<and> fst (generateToken env_cached_cert
            \<lparr> appId = ''0123456789abcdef0123456789ABCDEF'', channel = ''demo'', token = None,
              uid = None, appCertificate = None, mode = None, codec = None \<rparr> Audience []) =
       Inl failed_to_fetch"
proof -
  have cfg: "cfg0 = \<lparr> appId = ''0123456789abcdef0123456789ABCDEF'', channel = ''demo'', token = None,
      uid = None, appCertificate = None, mode = None, codec = None \<rparr>"
    by (simp add: cfg0_def)
  have n: "str_or None [] = []" by (simp add: str_or_def)
  have u: "getEncryptFromUrl env0 = (None, None)" by (simp add: getEncryptFromUrl_def env0_def)
  have l: "getOptionsFromLocal env0 = ([], [])"
    by (simp add: getOptionsFromLocal_def env0_def str_or_def)
  note t = generateToken_without_certificate [OF n u l, where a = "''0123456789abcdef0123456789ABCDEF''"
        and ch = "''demo''" and tk = None and uo = None and m = None and cd = None and r = Audience
        and log = "[]"]
  have w1: "generateToken env0 cfg0 Audience [] =
     (Inl (new_Error ''No token generation method available. Please provide App Certificate.''), [])"
    unfolding cfg by (rule mp [OF conjunct1 [OF t]]) (simp add: n)
  have u2: "getEncryptFromUrl env_cached_cert = (None, None)"
    by (simp add: getEncryptFromUrl_def env_cached_cert_def env0_def)
  have l2: "getOptionsFromLocal env_cached_cert = ([], cert0)"
    by (simp add: getOptionsFromLocal_def env_cached_cert_def env0_def str_or_def cert0_def)
  note t2 = generateToken_without_certificate [OF n u2 l2, where a = "''0123456789abcdef0123456789ABCDEF''"
        and ch = "''demo''" and tk = None and uo = None and m = None and cd = None and r = Audience
        and log = "[]"]
  have asked: "(str_or None [] \<noteq> [] \<and> str_or None [] \<noteq> []) \<or> cert0 \<noteq> []"
    by (simp add: cert0_def)
  note answer = mp [OF conjunct1 [OF conjunct2 [OF t2]] asked]
  note net = spec [OF conjunct1 [OF conjunct2 [OF answer]], of failed_to_fetch]
  have w2: "fst (generateToken env_cached_cert
            \<lparr> appId = ''0123456789abcdef0123456789ABCDEF'', channel = ''demo'', token = None,
              uid = None, appCertificate = None, mode = None, codec = None \<rparr> Audience []) =
       Inl failed_to_fetch"
    by (rule mp [OF net]) (simp add: env_cached_cert_def env0_def n)
  show ?thesis
    by (rule conjI [OF w1 w2])
qed

subsection \<open>Leaving\<close>

lemma leave_no_tracks:
  assumes "client s \<noteq> None" "localVideoTrack s = None" "localAudioTrack s = None"
  shows "leave e s log =
           (case engine_leave e log of
              Some err \<Rightarrow> (Inl err, s, log @ [ClientLeave])
            | None \<Rightarrow> (Inr (), s \<lparr> isPublisher := False \<rparr>, log @ [ClientLeave]))"
proof -
  have s: "s \<lparr> localVideoTrack := None \<rparr> = s" "s \<lparr> localAudioTrack := None \<rparr> = s"
    using assms(2,3) by simp_all
  have c: "(client s = None) = False" using assms(1) by simp
  show ?thesis
    using assms(2,3) by (simp add: leave_def release_def c s split: option.splits)
qed

lemma leave_success_state:
  assumes "client s \<noteq> None" "leave e s log = (Inr (), s', log')"
  shows "client s' = client s \<and> localVideoTrack s' = None \<and> localAudioTrack s' = None
         \<and> isPublisher s' = False \<and> config s' = config s"
proof -
  have c: "(client s = None) = False" using assms(1) by simp
  show ?thesis
    using assms(2)
    by (auto simp: leave_def c Let_def split: prod.splits option.splits)
qed

text \<open>
  Claim C3, amended. \<^verbatim>\<open>leave\<close> does nothing when the controller has no client. A second
  \<^verbatim>\<open>leave\<close> after one that succeeded touches no track and leaves the controller as it is,
  but it calls the engine's \<^verbatim>\<open>leave\<close> once more, and fails with that call's error if it
  throws.
\<close>

theorem leave_twice:
  "(client s = None \<longrightarrow> leave e s log = (Inr (), s, log))
   \<and> (client s \<noteq> None \<and> leave e s log = (Inr (), s', log') \<longrightarrow>
        leave e s' log' =
          (case engine_leave e log' of
             Some err \<Rightarrow> (Inl err, s', log' @ [ClientLeave])
           | None \<Rightarrow> (Inr (), s', log' @ [ClientLeave])))"
proof -
  have 1: "client s = None \<longrightarrow> leave e s log = (Inr (), s, log)"
    by (simp add: leave_def)
  have 2: "leave e s' log' =
          (case engine_leave e log' of
             Some err \<Rightarrow> (Inl err, s', log' @ [ClientLeave])
           | None \<Rightarrow> (Inr (), s', log' @ [ClientLeave]))"
    if a: "client s \<noteq> None" "leave e s log = (Inr (), s', log')"
  proof -
    from leave_success_state [OF a]
    have st: "client s' \<noteq> None" "localVideoTrack s' = None" "localAudioTrack s' = None"
        "isPublisher s' = False"
      using a(1) by simp_all
    have p: "s' \<lparr> isPublisher := False \<rparr> = s'" using st(4) by simp
    show ?thesis
      using leave_no_tracks [OF st(1,2,3), of e log'] by (simp add: p split: option.splits)
  qed
  show ?thesis using 1 2 by blast
qed

text \<open>
  A controller that has joined as audience leaves twice: the second call reaches the
  engine again.
\<close>

theorem leave_twice_counterexample:
  "leave env0 joined0 [] = (Inr (), joined0, [ClientLeave])
   \<and> leave env0 joined0 [ClientLeave] = (Inr (), joined0, [ClientLeave, ClientLeave])"
  by (simp add: leave_def release_def joined0_def AgoraClient_def env0_def)

theorem leave_twice_witness:
  "leave env0 (joined0 \<lparr> isPublisher := False \<rparr>) [ClientJoin ''a'' ''b'' None None, ClientLeave] =
     (Inr (), joined0 \<lparr> isPublisher := False \<rparr>,
      [ClientJoin ''a'' ''b'' None None, ClientLeave, ClientLeave])"
proof -
  let ?s = "joined0 \<lparr> isPublisher := True \<rparr>"
  let ?s' = "joined0 \<lparr> isPublisher := False \<rparr>"
  have c: "client ?s \<noteq> None" by (simp add: joined0_def)
  have f: "leave env0 ?s [ClientJoin ''a'' ''b'' None None] =
             (Inr (), ?s', [ClientJoin ''a'' ''b'' None None, ClientLeave])"
    by (simp add: leave_def release_def joined0_def AgoraClient_def env0_def)
  have el: "engine_leave env0 [ClientJoin ''a'' ''b'' None None, ClientLeave] = None"
    by (simp add: env0_def)
  show ?thesis
    using leave_twice [of ?s env0 "[ClientJoin ''a'' ''b'' None None]" ?s'
        "[ClientJoin ''a'' ''b'' None None, ClientLeave]"] c f el
    by simp
qed

text \<open>
  Claim C4, amended. With a client, \<^verbatim>\<open>leave\<close> runs its steps in this order: stop and close
  the video track and clear its reference, stop and close the audio track and clear its
  reference, call the engine's \<^verbatim>\<open>leave\<close>, set the publisher flag to false; a track that
  is absent is skipped. The steps share one \<^verbatim>\<open>try\<close> block: the first step that throws
  ends the call with that error, the steps after it are not run, and the publisher flag
  keeps its value. When no step throws, both references are cleared and the flag is
  false. The four parts of the statement are the sessions with no track, with a video
  track only, with an audio track only and with both.
\<close>

theorem leave_steps_in_order:
  assumes cl: "client s \<noteq> None"
  shows
   "(localVideoTrack s = None \<and> localAudioTrack s = None \<longrightarrow>
       (engine_leave e log = Some err \<longrightarrow>
          leave e s log = (Inl err, s, log @ [ClientLeave]))
     \<and> (engine_leave e log = None \<longrightarrow>
          leave e s log = (Inr (), s \<lparr> isPublisher := False \<rparr>, log @ [ClientLeave])))
  \<and> (localVideoTrack s = Some v \<and> localAudioTrack s = None \<longrightarrow>
       (track_stop e log v = Some err \<longrightarrow>
          leave e s log = (Inl err, s, log @ [TrackStop v]))
     \<and> (track_stop e log v = None \<and> track_close e (log @ [TrackStop v]) v = Some err \<longrightarrow>
          leave e s log = (Inl err, s, log @ [TrackStop v, TrackClose v]))
     \<and> (track_stop e log v = None \<and> track_close e (log @ [TrackStop v]) v = None
        \<and> engine_leave e (log @ [TrackStop v, TrackClose v]) = Some err \<longrightarrow>
          leave e s log =
            (Inl err, s \<lparr> localVideoTrack := None \<rparr>, log @ [TrackStop v, TrackClose v, ClientLeave]))
     \<and> (track_stop e log v = None \<and> track_close e (log @ [TrackStop v]) v = None
        \<and> engine_leave e (log @ [TrackStop v, TrackClose v]) = None \<longrightarrow>
          leave e s log =
            (Inr (), s \<lparr> localVideoTrack := None, isPublisher := False \<rparr>,
             log @ [TrackStop v, TrackClose v, ClientLeave])))
  \<and> (localVideoTrack s = None \<and> localAudioTrack s = Some a \<longrightarrow>
       (track_stop e log a = Some err \<longrightarrow>
          leave e s log = (Inl err, s, log @ [TrackStop a]))
     \<and> (track_stop e log a = None \<and> track_close e (log @ [TrackStop a]) a = Some err \<longrightarrow>
          leave e s log = (Inl err, s, log @ [TrackStop a, TrackClose a]))
     \<and> (track_stop e log a = None \<and> track_close e (log @ [TrackStop a]) a = None
        \<and> engine_leave e (log @ [TrackStop a, TrackClose a]) = Some err \<longrightarrow>
          leave e s log =
            (Inl err, s \<lparr> localAudioTrack := None \<rparr>, log @ [TrackStop a, TrackClose a, ClientLeave]))
     \<and> (track_stop e log a = None \<and> track_close e (log @ [TrackStop a]) a = None
        \<and> engine_leave e (log @ [TrackStop a, TrackClose a]) = None \<longrightarrow>
          leave e s log =
            (Inr (), s \<lparr> localAudioTrack := None, isPublisher := False \<rparr>,
             log @ [TrackStop a, TrackClose a, ClientLeave])))
  \<and> (localVideoTrack s = Some v \<and> localAudioTrack s = Some a \<longrightarrow>
       (track_stop e log v = Some err \<longrightarrow>
          leave e s log = (Inl err, s, log @ [TrackStop v]))
     \<and> (track_stop e log v = None \<and> track_close e (log @ [TrackStop v]) v = Some err \<longrightarrow>
          leave e s log = (Inl err, s, log @ [TrackStop v, TrackClose v]))
     \<and> (track_stop e log v = None \<and> track_close e (log @ [TrackStop v]) v = None
        \<and> track_stop e (log @ [TrackStop v, TrackClose v]) a = Some err \<longrightarrow>
          leave e s log =
            (Inl err, s \<lparr> localVideoTrack := None \<rparr>, log @ [TrackStop v, TrackClose v, TrackStop a]))
     \<and> (track_stop e log v = None \<and> track_close e (log @ [TrackStop v]) v = None
        \<and> track_stop e (log @ [TrackStop v, TrackClose v]) a = None
        \<and> track_close e (log @ [TrackStop v, TrackClose v, TrackStop a]) a = Some err \<longrightarrow>
          leave e s log =
            (Inl err, s \<lparr> localVideoTrack := None \<rparr>,
             log @ [TrackStop v, TrackClose v, TrackStop a, TrackClose a]))
     \<and> (track_stop e log v = None \<and> track_close e (log @ [TrackStop v]) v = None
        \<and> track_stop e (log @ [TrackStop v, TrackClose v]) a = None
        \<and> track_close e (log @ [TrackStop v, TrackClose v, TrackStop a]) a = None
        \<and> engine_leave e (log @ [TrackStop v, TrackClose v, TrackStop a, TrackClose a]) = Some err \<longrightarrow>
          leave e s log =
            (Inl err, s \<lparr> localVideoTrack := None, localAudioTrack := None \<rparr>,
             log @ [TrackStop v, TrackClose v, TrackStop a, TrackClose a, ClientLeave]))
     \<and> (track_stop e log v = None \<and> track_close e (log @ [TrackStop v]) v = None
        \<and> track_stop e (log @ [TrackStop v, TrackClose v]) a = None
        \<and> track_close e (log @ [TrackStop v, TrackClose v, TrackStop a]) a = None
        \<and> engine_leave e (log @ [TrackStop v, TrackClose v, TrackStop a, TrackClose a]) = None \<longrightarrow>
          leave e s log =
            (Inr (), s \<lparr> localVideoTrack := None, localAudioTrack := None, isPublisher := False \<rparr>,
             log @ [TrackStop v, TrackClose v, TrackStop a, TrackClose a, ClientLeave])))"
    (is "(?none \<longrightarrow> ?steps0) \<and> (?video \<longrightarrow> ?steps1) \<and> (?audio \<longrightarrow> ?steps2) \<and> (?both \<longrightarrow> ?steps3)")
proof -
  have c: "(client s = None) = False" using cl by simp
  have 0: ?steps0 if tr: "localVideoTrack s = None" "localAudioTrack s = None"
  proof -
    have keep: "s \<lparr> localVideoTrack := None \<rparr> = s" "s \<lparr> localAudioTrack := None \<rparr> = s"
      using tr by simp_all
    show ?thesis
      by (simp add: leave_def release_def c tr keep Let_def)
  qed
  have 1: ?steps1 if tr: "localVideoTrack s = Some v" "localAudioTrack s = None"
  proof -
    have keep: "s \<lparr> localVideoTrack := None, localAudioTrack := None \<rparr> = s \<lparr> localVideoTrack := None \<rparr>"
      using tr by simp
    show ?thesis
      by (simp add: leave_def release_def stop_close_def c tr keep Let_def)
  qed
  have 2: ?steps2 if tr: "localVideoTrack s = None" "localAudioTrack s = Some a"
  proof -
    have keep: "s \<lparr> localVideoTrack := None \<rparr> = s" using tr by simp
    show ?thesis
      by (simp add: leave_def release_def stop_close_def c tr keep Let_def)
  qed
  have 3: ?steps3 if tr: "localVideoTrack s = Some v" "localAudioTrack s = Some a"
    by (simp add: leave_def release_def stop_close_def c tr Let_def)
  have i0: "?none \<longrightarrow> ?steps0"
  proof (rule impI)
    assume t: ?none
    from t have "localVideoTrack s = None" "localAudioTrack s = None" by simp_all
    then show ?steps0 by (rule 0)
  qed
  have i1: "?video \<longrightarrow> ?steps1"
  proof (rule impI)
    assume t: ?video
    from t have "localVideoTrack s = Some v" "localAudioTrack s = None" by simp_all
    then show ?steps1 by (rule 1)
  qed
  have i2: "?audio \<longrightarrow> ?steps2"
  proof (rule impI)
    assume t: ?audio
    from t have "localVideoTrack s = None" "localAudioTrack s = Some a" by simp_all
    then show ?steps2 by (rule 2)
  qed
  have i3: "?both \<longrightarrow> ?steps3"
  proof (rule impI)
    assume t: ?both
    from t have "localVideoTrack s = Some v" "localAudioTrack s = Some a" by simp_all
    then show ?steps3 by (rule 3)
  qed
  show ?thesis
    by (rule conjI [OF i0 conjI [OF i1 conjI [OF i2 i3]]])
qed

text \<open>
  A publisher whose video track throws from \<^verbatim>\<open>stop()\<close>: \<^verbatim>\<open>leave\<close> fails with that error,
  the audio track is not stopped, the engine's \<^verbatim>\<open>leave\<close> is not called and the controller
  is unchanged.
\<close>

theorem leave_steps_independent_counterexample:
  "leave env_stop_fails publishing0 [] = (Inl stop_failed, publishing0, [TrackStop (Track 2)])"
  by (simp add: leave_def release_def stop_close_def publishing0_def joined0_def AgoraClient_def
      env_stop_fails_def env0_def)

text \<open>
  A publisher with both tracks and an audience member with none, in an environment where
  no step throws; and an audience member whose engine \<^verbatim>\<open>leave\<close> throws.
\<close>

theorem leave_steps_in_order_witness:
  "leave env0 publishing0 [] =
     (Inr (), publishing0 \<lparr> localVideoTrack := None, localAudioTrack := None, isPublisher := False \<rparr>,
      [TrackStop (Track 2), TrackClose (Track 2), TrackStop (Track 1), TrackClose (Track 1), ClientLeave])
   \<and> leave env0 joined0 [] = (Inr (), joined0 \<lparr> isPublisher := False \<rparr>, [ClientLeave])
   \<and> leave env_leave_fails joined0 [] = (Inl leave_failed, joined0, [ClientLeave])"
proof -
  have c: "client publishing0 \<noteq> None" by (simp add: publishing0_def joined0_def)
  have tr: "localVideoTrack publishing0 = Some (Track 2) \<and> localAudioTrack publishing0 = Some (Track 1)"
    by (simp add: publishing0_def)
  note t = leave_steps_in_order [OF c, where v = "Track 2" and a = "Track 1" and e = env0
      and log = "[]" and err = stop_failed]
  note steps = mp [OF conjunct2 [OF conjunct2 [OF conjunct2 [OF t]]] tr]
  note last = conjunct2 [OF conjunct2 [OF conjunct2 [OF conjunct2 [OF conjunct2 [OF steps]]]]]
  have "leave env0 publishing0 [] =
     (Inr (), publishing0 \<lparr> localVideoTrack := None, localAudioTrack := None, isPublisher := False \<rparr>,
      [] @ [TrackStop (Track 2), TrackClose (Track 2), TrackStop (Track 1), TrackClose (Track 1), ClientLeave])"
    by (rule mp [OF last]) (simp add: env0_def)
  then have w1: "leave env0 publishing0 [] =
     (Inr (), publishing0 \<lparr> localVideoTrack := None, localAudioTrack := None, isPublisher := False \<rparr>,
      [TrackStop (Track 2), TrackClose (Track 2), TrackStop (Track 1), TrackClose (Track 1), ClientLeave])"
    by simp
  have c0: "client joined0 \<noteq> None" by (simp add: joined0_def)
  have tr0: "localVideoTrack joined0 = None \<and> localAudioTrack joined0 = None"
    by (simp add: joined0_def AgoraClient_def)
  note t0 = leave_steps_in_order [OF c0, where v = "Track 2" and a = "Track 1" and e = env0
      and log = "[]" and err = leave_failed]
  note steps0 = mp [OF conjunct1 [OF t0] tr0]
  have "leave env0 joined0 [] = (Inr (), joined0 \<lparr> isPublisher := False \<rparr>, [] @ [ClientLeave])"
    by (rule mp [OF conjunct2 [OF steps0]]) (simp add: env0_def)
  then have w2: "leave env0 joined0 [] = (Inr (), joined0 \<lparr> isPublisher := False \<rparr>, [ClientLeave])"
    by simp
  note t1 = leave_steps_in_order [OF c0, where v = "Track 2" and a = "Track 1" and e = env_leave_fails
      and log = "[]" and err = leave_failed]
  note steps1 = mp [OF conjunct1 [OF t1] tr0]
  have "leave env_leave_fails joined0 [] = (Inl leave_failed, joined0, [] @ [ClientLeave])"
    by (rule mp [OF conjunct1 [OF steps1]]) (simp add: env_leave_fails_def env0_def)
  then have w3: "leave env_leave_fails joined0 [] = (Inl leave_failed, joined0, [ClientLeave])"
    by simp
  show ?thesis
    by (rule conjI [OF w1 conjI [OF w2 w3]])
qed

subsection \<open>Joining without a token\<close>

lemma ensure_client_config: "config (fst (ensure_client e s log)) = config s"
  by (simp add: ensure_client_def initClient_def Let_def)

lemma join_catch_new_Error:
  "join_catch (new_Error msg) = new_Error (''Failed to join channel: '' @ (if msg = [] then ''Unknown error'' else msg))"
  by (simp add: join_catch_def new_Error_def str_or_def)

text \<open>
  Claim C6, amended. When the configuration has no token and \<^verbatim>\<open>generateToken\<close> fails,
  \<^verbatim>\<open>join\<close> makes no call to the engine's join and fails, leaving the controller as it
  was but for a client it may have just created. The error ``Token generation
  failed. Please check your App Certificate or server configuration.'' is thrown inside
  the \<^verbatim>\<open>try\<close> block of \<^verbatim>\<open>join\<close>, whose \<^verbatim>\<open>catch\<close> finds no code on it, so the caller receives
  ``Failed to join channel: Token generation failed. Please check your App Certificate
  or server configuration.''
\<close>

theorem join_token_failure:
  assumes valid: "trim (appId (config s)) \<noteq> []" "trim (channel (config s)) \<noteq> []"
      "appIdPattern_test (trim (appId (config s)))"
    and cl: "ensure_client e s log = (s1, log1)" "client s1 \<noteq> None"
    and nt: "str_or (token (config s)) [] = []"
    and gf: "fst (generateToken e (config s) r log1) = Inl tokenError"
  shows "join e r s log =
           (Inl (new_Error ''Failed to join channel: Token generation failed. Please check your App Certificate or server configuration.''),
            s1, snd (generateToken e (config s) r log1))
       \<and> (\<exists>requests. snd (snd (join e r s log)) = log1 @ map Fetch requests)"
proof -
  have ne: "appId (config s) \<noteq> []" "channel (config s) \<noteq> []"
    using valid by (auto simp: trim_def)
  have cfg: "config s1 = config s"
    using ensure_client_config [of e s log] cl(1) by simp
  obtain log2 where g: "generateToken e (config s) r log1 = (Inl tokenError, log2)"
    using gf by (cases "generateToken e (config s) r log1") simp
  have at: "acquire_token e r s1 log1 =
      (Inl (new_Error ''Token generation failed. Please check your App Certificate or server configuration.''),
       log2)"
    using nt g by (simp add: acquire_token_def cfg)
  have jt: "join_try e r s1 log1 =
      (Inl (new_Error ''Token generation failed. Please check your App Certificate or server configuration.''),
       s1, log2)"
    using at by (simp add: join_try_def)
  have c: "(client s1 = None) = False" using cl(2) by simp
  have j: "join e r s log =
      (Inl (join_catch (new_Error ''Token generation failed. Please check your App Certificate or server configuration.'')),
       s1, log2)"
    using ne valid cl(1) jt by (simp add: join_def c)
  have 1: "join e r s log =
           (Inl (new_Error ''Failed to join channel: Token generation failed. Please check your App Certificate or server configuration.''),
            s1, snd (generateToken e (config s) r log1))"
    using j g by (simp add: join_catch_new_Error)
  obtain fs where "snd (generateToken e (config s) r log1) = log1 @ map Fetch fs"
    using generateToken_log by blast
  then have "snd (snd (join e r s log)) = log1 @ map Fetch fs"
    using 1 by simp
  then have 2: "\<exists>requests. snd (snd (join e r s log)) = log1 @ map Fetch requests"
    by (rule exI)
  show ?thesis by (rule conjI [OF 1 2])
qed

text \<open>
  A browser session with no token, no certificate and nothing cached: the message the
  caller receives carries the prefix of the \<^verbatim>\<open>catch\<close> block.
\<close>

theorem join_token_failure_counterexample:
  "fst (join env0 Audience (AgoraClient cfg0) []) =
     Inl (new_Error ''Failed to join channel: Token generation failed. Please check your App Certificate or server configuration.'')
   \<and> fst (join env0 Audience (AgoraClient cfg0) []) \<noteq>
     Inl (new_Error ''Token generation failed. Please check your App Certificate or server configuration.'')"
  by (simp add: join_def join_try_def acquire_token_def generateToken_def agoraGetAppData_def
      getOptionsFromLocal_def getEncryptFromUrl_def ensure_client_def initClient_def
      setupEventListeners_def join_catch_def new_Error_def AgoraClient_def cfg0_def env0_def
      str_or_def trim_appId0 trim_demo appIdPattern_appId0 Let_def)

theorem join_token_failure_witness:
  "join env0 Audience (AgoraClient cfg_cert) [] =
     (Inl (new_Error ''Failed to join channel: Token generation failed. Please check your App Certificate or server configuration.''),
      (AgoraClient cfg_cert) \<lparr> client := Some (RtcClient Rtc Vp8) \<rparr>,
      [CreateClient Rtc Vp8, ClientOn ''user-published'', ClientOn ''user-unpublished'',
       ClientOn ''user-left'', ClientOn ''connection-state-change'',
       Fetch (server_request ''0123456789abcdef0123456789ABCDEF'' cert0 ''demo'' (UidNum 0) Audience),
       Fetch (backend_request ''0123456789abcdef0123456789ABCDEF'' cert0 ''demo'' (UidNum 0) Audience 3600)])"
proof -
  let ?s = "AgoraClient cfg_cert"
  let ?s1 = "?s \<lparr> client := Some (RtcClient Rtc Vp8) \<rparr>"
  let ?log1 = "[CreateClient Rtc Vp8, ClientOn ''user-published'', ClientOn ''user-unpublished'',
       ClientOn ''user-left'', ClientOn ''connection-state-change'']"
  have cfg: "config ?s = \<lparr> appId = ''0123456789abcdef0123456789ABCDEF'', channel = ''demo'', token = None,
      uid = None, appCertificate = Some cert0, mode = Some Rtc, codec = Some Vp8 \<rparr>"
    by (simp add: AgoraClient_def cfg_cert_def cfg0_def)
  have v1: "trim (appId (config ?s)) \<noteq> []" by (simp add: cfg trim_appId0)
  have v2: "trim (channel (config ?s)) \<noteq> []" by (simp add: cfg trim_demo)
  have v3: "appIdPattern_test (trim (appId (config ?s)))"
    by (simp add: cfg trim_appId0 appIdPattern_appId0)
  have ec: "ensure_client env0 ?s [] = (?s1, ?log1)"
    by (simp add: ensure_client_def initClient_def setupEventListeners_def AgoraClient_def env0_def)
  have c2: "client ?s1 \<noteq> None" by simp
  have nt: "str_or (token (config ?s)) [] = []" by (simp add: cfg str_or_def)
  have g: "generateToken env0 (config ?s) Audience ?log1 =
      (Inl failed_to_fetch,
       ?log1 @ [Fetch (server_request ''0123456789abcdef0123456789ABCDEF'' cert0 ''demo'' (UidNum 0) Audience),
                Fetch (backend_request ''0123456789abcdef0123456789ABCDEF'' cert0 ''demo'' (UidNum 0) Audience 3600)])"
    by (simp add: cfg generateToken_def generateTokenFromServer_def generateTokenFromBackend_def
        env0_def cert0_def str_or_def Let_def)
  have gf: "fst (generateToken env0 (config ?s) Audience ?log1) = Inl failed_to_fetch"
    by (simp add: g)
  show ?thesis
    using conjunct1 [OF join_token_failure [OF v1 v2 v3 ec c2 nt gf]] by (simp add: g)
qed

subsection \<open>The token route\<close>

lemma char_digit_cases:
  assumes "48 \<le> (of_char c :: nat)" "(of_char c :: nat) \<le> 57"
  shows "c \<in> set ''0123456789''"
proof -
  let ?n = "of_char c :: nat"
  have n: "?n = 48 \<or> ?n = 49 \<or> ?n = 50 \<or> ?n = 51 \<or> ?n = 52 \<or> ?n = 53 \<or> ?n = 54
      \<or> ?n = 55 \<or> ?n = 56 \<or> ?n = 57"
    using assms by arith
  have e: "\<And>d. ?n = of_char d \<Longrightarrow> c = d"
    by (simp only: of_char_eq_iff)
  have "c = CHR ''0'' \<or> c = CHR ''1'' \<or> c = CHR ''2'' \<or> c = CHR ''3'' \<or> c = CHR ''4''
      \<or> c = CHR ''5'' \<or> c = CHR ''6'' \<or> c = CHR ''7'' \<or> c = CHR ''8'' \<or> c = CHR ''9''"
    using n
  proof (elim disjE)
    assume "?n = 48" then have "c = CHR ''0''" by (intro e) simp then show ?thesis by simp
  next
    assume "?n = 49" then have "c = CHR ''1''" by (intro e) simp then show ?thesis by simp
  next
    assume "?n = 50" then have "c = CHR ''2''" by (intro e) simp then show ?thesis by simp
  next
    assume "?n = 51" then have "c = CHR ''3''" by (intro e) simp then show ?thesis by simp
  next
    assume "?n = 52" then have "c = CHR ''4''" by (intro e) simp then show ?thesis by simp
  next
    assume "?n = 53" then have "c = CHR ''5''" by (intro e) simp then show ?thesis by simp
  next
    assume "?n = 54" then have "c = CHR ''6''" by (intro e) simp then show ?thesis by simp
  next
    assume "?n = 55" then have "c = CHR ''7''" by (intro e) simp then show ?thesis by simp
  next
    assume "?n = 56" then have "c = CHR ''8''" by (intro e) simp then show ?thesis by simp
  next
    assume "?n = 57" then have "c = CHR ''9''" by (intro e) simp then show ?thesis by simp
  qed
  then show ?thesis by auto
qed

lemma is_digit_in_10: "is_digit_in 10 c \<longleftrightarrow> c \<in> set ''0123456789''"
proof
  assume "c \<in> set ''0123456789''"
  then show "is_digit_in 10 c"
    by (auto simp: is_digit_in_def digit_value_def)
next
  assume d: "is_digit_in 10 c"
  have "48 \<le> (of_char c :: nat) \<and> (of_char c :: nat) \<le> 57"
    using d by (auto simp: is_digit_in_def digit_value_def Let_def split: if_splits)
  then show "c \<in> set ''0123456789''"
    using char_digit_cases by blast
qed


lemma digit_char_cases:
  "digit_char n \<in> set ''0123456789'' \<and> digit_value (digit_char n) = Some (n mod 10)"
proof -
  have "n mod 10 < 10" by simp
  then have "n mod 10 = 0 \<or> n mod 10 = 1 \<or> n mod 10 = 2 \<or> n mod 10 = 3 \<or> n mod 10 = 4
      \<or> n mod 10 = 5 \<or> n mod 10 = 6 \<or> n mod 10 = 7 \<or> n mod 10 = 8 \<or> n mod 10 = 9"
    by arith
  then show ?thesis
    by (elim disjE) (simp_all add: digit_value_def)
qed

lemma show_nat_digits: "show_nat n \<noteq> [] \<and> (\<forall>c \<in> set (show_nat n). c \<in> set ''0123456789'')"
proof (induction n rule: show_nat.induct)
  case (1 n)
  note d = conjunct1 [OF digit_char_cases [of n]]
  show ?case
  proof (cases "n < 10")
    case True
    have "show_nat n = [digit_char n]" using True by (subst show_nat.simps) simp
    then show ?thesis using d by simp
  next
    case False
    have s: "show_nat n = show_nat (n div 10) @ [digit_char n]"
      using False by (subst show_nat.simps) simp
    have "\<forall>c \<in> set (show_nat (n div 10)). c \<in> set ''0123456789''"
      using 1 False by blast
    then show ?thesis using d unfolding s by auto
  qed
qed

lemma digits_value_snoc:
  "digits_value radix (ds @ [c]) =
     digits_value radix ds * radix + (case digit_value c of None \<Rightarrow> 0 | Some d \<Rightarrow> d)"
  by (simp add: digits_value_def)

lemma digits_value_show_nat: "digits_value 10 (show_nat n) = n"
proof (induction n rule: show_nat.induct)
  case (1 n)
  note d = conjunct2 [OF digit_char_cases [of n]]
  show ?case
  proof (cases "n < 10")
    case True
    have "show_nat n = [digit_char n]" using True by (subst show_nat.simps) simp
    then have "digits_value 10 (show_nat n) = n mod 10"
      using d by (simp add: digits_value_def)
    then show ?thesis using True by simp
  next
    case False
    have s: "show_nat n = show_nat (n div 10) @ [digit_char n]"
      using False by (subst show_nat.simps) simp
    have ih: "digits_value 10 (show_nat (n div 10)) = n div 10"
      using 1 False by blast
    have "digits_value 10 (show_nat n) = (n div 10) * 10 + n mod 10"
      unfolding s digits_value_snoc ih d by simp
    then show ?thesis by simp
  qed
qed


lemma not_whitespace_digit: "c \<in> set ''0123456789'' \<Longrightarrow> \<not> is_whitespace c"
  by (auto simp: is_whitespace_def)

lemma dropWhile_whitespace_prefix:
  assumes "list_all is_whitespace ws" "xs = [] \<or> \<not> is_whitespace (hd xs)"
  shows "dropWhile is_whitespace (ws @ xs) = xs"
proof -
  have "dropWhile is_whitespace (ws @ xs) = dropWhile is_whitespace xs"
    using assms(1) by (simp add: list_all_iff dropWhile_append2)
  also have "\<dots> = xs"
    using assms(2) by (cases xs) auto
  finally show ?thesis .
qed

lemma takeWhile_digits_prefix:
  assumes "\<forall>c \<in> set ds. is_digit_in 10 c" "rest = [] \<or> \<not> is_digit_in 10 (hd rest)"
  shows "takeWhile (is_digit_in 10) (ds @ rest) = ds"
proof -
  have "takeWhile (is_digit_in 10) (ds @ rest) = ds @ takeWhile (is_digit_in 10) rest"
    using assms(1) by (simp add: takeWhile_append2)
  also have "takeWhile (is_digit_in 10) rest = []"
    using assms(2) by (cases rest) auto
  finally show ?thesis by simp
qed

lemma parse_sign_cases:
  "parse_sign (CHR ''-'' # s) = (True, s)"
  "parse_sign (CHR ''+'' # s) = (False, s)"
  "s = [] \<or> (hd s \<noteq> CHR ''-'' \<and> hd s \<noteq> CHR ''+'') \<Longrightarrow> parse_sign s = (False, s)"
  by (cases s; simp add: parse_sign_def)+

lemma parse_radix_decimal:
  "take 2 s \<noteq> ''0x'' \<Longrightarrow> take 2 s \<noteq> ''0X'' \<Longrightarrow> parse_radix s = (10, s)"
  unfolding parse_radix_def by (simp only: if_False simp_thms)

lemma parseInt_after_sign:
  assumes "parse_sign (dropWhile is_whitespace inp) = (neg, s)"
    and "take 2 s \<noteq> ''0x''" "take 2 s \<noteq> ''0X''"
  shows "parseInt rnd inp =
           (if takeWhile (is_digit_in 10) s = [] then NaN
            else rnd (of_int ((if neg then - 1 else 1) *
                   int (digits_value 10 (takeWhile (is_digit_in 10) s)))))"
  by (simp add: parseInt_def assms(1) Let_def parse_radix_decimal [OF assms(2,3)])

lemma parseInt_digits:
  assumes hex: "take 2 (ds @ rest) \<noteq> ''0x''" "take 2 (ds @ rest) \<noteq> ''0X''"
    and ds: "ds \<noteq> []" "\<forall>c \<in> set ds. c \<in> set ''0123456789''"
    and rest: "rest = [] \<or> hd rest \<notin> set ''0123456789''"
  shows "parseInt rnd (ds @ rest) = rnd (of_int (int (digits_value 10 ds)))"
    and "parseInt rnd (CHR ''+'' # ds @ rest) = rnd (of_int (int (digits_value 10 ds)))"
    and "parseInt rnd (CHR ''-'' # ds @ rest) = rnd (of_int (- int (digits_value 10 ds)))"
proof -
  have hd: "hd (ds @ rest) \<in> set ''0123456789''"
    using ds by (cases ds) auto
  have cw: "\<not> is_whitespace (hd (ds @ rest))" using hd by (rule not_whitespace_digit)
  have cs: "hd (ds @ rest) \<noteq> CHR ''-'' \<and> hd (ds @ rest) \<noteq> CHR ''+''" using hd by auto
  have tw: "takeWhile (is_digit_in 10) (ds @ rest) = ds"
    using ds(2) rest by (intro takeWhile_digits_prefix) (simp_all add: is_digit_in_10)
  have sw: "\<not> is_whitespace (CHR ''+'')" "\<not> is_whitespace (CHR ''-'')"
    by (simp_all add: is_whitespace_def)
  have d0: "dropWhile is_whitespace (ds @ rest) = ds @ rest"
    using dropWhile_whitespace_prefix [of "[]" "ds @ rest"] cw by simp
  have s0: "parse_sign (dropWhile is_whitespace (ds @ rest)) = (False, ds @ rest)"
    unfolding d0 using cs by (intro parse_sign_cases(3)) simp
  have s1: "parse_sign (dropWhile is_whitespace (CHR ''+'' # ds @ rest)) = (False, ds @ rest)"
    using sw by (simp add: parse_sign_cases)
  have s2: "parse_sign (dropWhile is_whitespace (CHR ''-'' # ds @ rest)) = (True, ds @ rest)"
    using sw by (simp add: parse_sign_cases)
  show "parseInt rnd (ds @ rest) = rnd (of_int (int (digits_value 10 ds)))"
    unfolding parseInt_after_sign [OF s0 hex] tw using ds(1) by simp
  show "parseInt rnd (CHR ''+'' # ds @ rest) = rnd (of_int (int (digits_value 10 ds)))"
    unfolding parseInt_after_sign [OF s1 hex] tw using ds(1) by simp
  show "parseInt rnd (CHR ''-'' # ds @ rest) = rnd (of_int (- int (digits_value 10 ds)))"
    unfolding parseInt_after_sign [OF s2 hex] tw using ds(1) by simp
qed

lemma parseInt_skips_whitespace:
  assumes "list_all is_whitespace ws"
  shows "parseInt rnd (ws @ xs) = parseInt rnd xs"
proof -
  have "dropWhile is_whitespace (ws @ xs) = dropWhile is_whitespace xs"
    using assms by (simp add: list_all_iff dropWhile_append2)
  then show ?thesis by (simp add: parseInt_def)
qed

lemma parseInt_decimal:
  assumes ws: "list_all is_whitespace ws"
    and sg: "sg = [] \<or> sg = ''+'' \<or> sg = ''-''"
    and rest: "rest = [] \<or> hd rest \<notin> set ''0123456789''"
    and hex: "take 2 (show_nat n @ rest) \<noteq> ''0x''" "take 2 (show_nat n @ rest) \<noteq> ''0X''"
  shows "parseInt rnd (ws @ sg @ show_nat n @ rest) =
           rnd (of_int ((if sg = ''-'' then - 1 else 1) * int n))"
proof -
  note d = show_nat_digits [of n]
  note p = parseInt_digits [OF hex conjunct1 [OF d] conjunct2 [OF d] rest, of rnd,
      unfolded digits_value_show_nat]
  have "parseInt rnd (sg @ show_nat n @ rest) =
           rnd (of_int ((if sg = ''-'' then - 1 else 1) * int n))"
    using sg
  proof (elim disjE)
    assume "sg = []" then show ?thesis using p(1) by simp
  next
    assume "sg = ''+''" then show ?thesis using p(2) by simp
  next
    assume "sg = ''-''" then show ?thesis using p(3) by simp
  qed
  then show ?thesis
    using parseInt_skips_whitespace [OF ws, of rnd "sg @ show_nat n @ rest"] by simp
qed

lemma parseInt_no_digit:
  assumes ws: "list_all is_whitespace ws"
    and sg: "sg = [] \<or> sg = ''+'' \<or> sg = ''-''"
    and rest: "rest = [] \<or>
         (hd rest \<notin> set ''0123456789'' \<and> \<not> is_whitespace (hd rest)
          \<and> hd rest \<noteq> CHR ''+'' \<and> hd rest \<noteq> CHR ''-'')"
  shows "parseInt rnd (ws @ sg @ rest) = NaN"
proof -
  have tw: "takeWhile (is_digit_in 10) rest = []"
    using rest by (cases rest) (auto simp: is_digit_in_10)
  have nh: "take 2 rest \<noteq> ''0x''" "take 2 rest \<noteq> ''0X''"
    using rest by (cases rest; auto)+
  have sw: "\<not> is_whitespace (CHR ''+'')" "\<not> is_whitespace (CHR ''-'')"
    by (simp_all add: is_whitespace_def)
  have d0: "dropWhile is_whitespace rest = rest"
    using rest by (cases rest) auto
  have s0: "parse_sign (dropWhile is_whitespace rest) = (False, rest)"
    unfolding d0 using rest by (intro parse_sign_cases(3)) auto
  have s1: "parse_sign (dropWhile is_whitespace (CHR ''+'' # rest)) = (False, rest)"
    using sw by (simp add: parse_sign_cases)
  have s2: "parse_sign (dropWhile is_whitespace (CHR ''-'' # rest)) = (True, rest)"
    using sw by (simp add: parse_sign_cases)
  have "parseInt rnd (sg @ rest) = NaN"
    using sg
  proof (elim disjE)
    assume "sg = []"
    then show ?thesis using parseInt_after_sign [OF s0 nh, of rnd] tw by simp
  next
    assume "sg = ''+''"
    then show ?thesis using parseInt_after_sign [OF s1 nh, of rnd] tw by simp
  next
    assume "sg = ''-''"
    then show ?thesis using parseInt_after_sign [OF s2 nh, of rnd] tw by simp
  qed
  then show ?thesis
    using parseInt_skips_whitespace [OF ws, of rnd "sg @ rest"] by simp
qed

lemma appIdPattern_test_length: "appIdPattern_test s \<Longrightarrow> length s = 32"
  by (simp add: appIdPattern_test_def)

lemma uidNum_of_decimal:
  assumes ex: "exact_on_safe_integers rnd"
    and ws: "list_all is_whitespace ws"
    and sg: "sg = [] \<or> sg = ''+'' \<or> sg = ''-''"
    and rest: "rest = [] \<or> hd rest \<notin> set ''0123456789''"
    and hex: "take 2 (show_nat n @ rest) \<noteq> ''0x''" "take 2 (show_nat n @ rest) \<noteq> ''0X''"
    and safe: "n \<le> 2 ^ 53"
  shows "uidNum_of rnd (Some (ReqUidStr (ws @ sg @ show_nat n @ rest))) =
           Num (of_int ((if sg = ''-'' then - 1 else 1) * int n))"
proof -
  let ?k = "(if sg = ''-'' then - 1 else 1) * int n"
  have "\<bar>?k\<bar> \<le> 2 ^ 53" using safe by (simp add: abs_mult)
  then have r: "rnd (of_int ?k) = Num (of_int ?k)"
    using ex unfolding exact_on_safe_integers_def by blast
  have p: "parseInt rnd (ws @ sg @ show_nat n @ rest) = Num (of_int ?k)"
    unfolding parseInt_decimal [OF ws sg rest hex] by (rule r)
  show ?thesis
    unfolding uidNum_of.simps p by simp
qed

lemma uidNum_of_no_digit:
  assumes ws: "list_all is_whitespace ws"
    and sg: "sg = [] \<or> sg = ''+'' \<or> sg = ''-''"
    and rest: "rest = [] \<or>
         (hd rest \<notin> set ''0123456789'' \<and> \<not> is_whitespace (hd rest)
          \<and> hd rest \<noteq> CHR ''+'' \<and> hd rest \<noteq> CHR ''-'')"
  shows "uidNum_of rnd (Some (ReqUidStr (ws @ sg @ rest))) = Num 0"
  unfolding uidNum_of.simps parseInt_no_digit [OF ws sg rest] by simp

lemma show_nat_42: "show_nat 42 = ''42''"
  by (simp add: show_nat.simps)

lemma srv0_exact: "exact_on_safe_integers (to_Number srv0)"
  by (simp add: srv0_def exact_on_safe_integers_def)

lemma three_halves: "(3 / 2 :: rat) \<notin> \<int>"
proof
  assume "(3 / 2 :: rat) \<in> \<int>"
  then obtain k :: int where "(3 / 2 :: rat) = of_int k" by (auto elim: Ints_cases)
  then have "(3 :: rat) = of_int (2 * k)" by simp
  then have "(3 :: int) = 2 * k" by (metis of_int_eq_iff of_int_numeral)
  then show False by presburger
qed

text \<open>
  Claim C8, amended. A request whose body does not decode is answered 500 with the
  message of the decoding error. For a request whose body decodes to a \<^verbatim>\<open>TokenRequest\<close>:
  when \<open>appId\<close>, \<open>appCertificate\<close> or \<open>channelName\<close> is missing or empty, the answer is 400
  with the message that the three are required; when \<open>appId\<close> is not 32 hexadecimal digits
  (31 of them, for one), it is 400 with the App ID format message; otherwise the signing
  primitive is called once, with the role \<open>PUBLISHER\<close> for \<open>'publisher'\<close> and \<open>SUBSCRIBER\<close> for
  any other role, and the answer is 200 with the token, or 500 with the message of the
  error when the primitive throws. The expiry is the sum of \<open>generatedAt\<close> and
  \<open>expireTimeInSeconds\<close> (3600 when the body gives none) as a JavaScript number: the exact
  sum when it is an integer of magnitude at most \<open>2 ^ 53\<close>. The user id is 0 when the body
  gives none; a number is passed on as it is, integer or not; a string goes through
  \<^verbatim>\<open>parseInt\<close>: white space, a sign and a decimal numeral \<open>n\<close> give \<open>n\<close> with that sign
  (exactly, up to \<open>2 ^ 53\<close>), whatever follows the digits, and a string with no digit in
  that place gives 0.
\<close>

theorem POST_contract:
  fixes b :: token_request and srv :: server_env
  defines "aid \<equiv> str_or (req_appId b) []"
    and "cert \<equiv> str_or (req_appCertificate b) []"
    and "channelName \<equiv> str_or (req_channelName b) []"
    and "role_str \<equiv> (case req_role b of None \<Rightarrow> ''audience'' | Some r \<Rightarrow> r)"
    and "expireTimeInSeconds \<equiv> (case req_expireTimeInSeconds b of None \<Rightarrow> 3600 | Some q \<Rightarrow> q)"
    and "generatedAt \<equiv> date_now srv div 1000"
    and "uidNum \<equiv> uidNum_of (to_Number srv) (req_uid b)"
  defines "expireTime \<equiv> to_Number srv (of_int generatedAt + expireTimeInSeconds)"
  defines "signed \<equiv>
      buildTokenWithUid srv aid cert channelName uidNum
        (if role_str = ''publisher'' then PUBLISHER else SUBSCRIBER) expireTime expireTime"
  shows "(\<forall>err. POST srv (BodyError err) =
            NextResponse_json
              (ErrorPayload ''Failed to generate token''
                 (if instanceof_Error err then err_message err else Some ''Unknown error''))
              500)
       \<and> (aid = [] \<or> cert = [] \<or> channelName = [] \<longrightarrow>
            POST srv (Body b) =
              NextResponse_json
                (ErrorPayload ''App ID, App Certificate, and Channel Name are required'' None) 400)
       \<and> (aid \<noteq> [] \<and> cert \<noteq> [] \<and> channelName \<noteq> [] \<and> \<not> appIdPattern_test aid \<longrightarrow>
            POST srv (Body b) =
              NextResponse_json
                (ErrorPayload
                   ''Invalid App ID format. App ID should be a 32-character hexadecimal string.'' None)
                400)
       \<and> (length aid = 31 \<and> cert \<noteq> [] \<and> channelName \<noteq> [] \<longrightarrow>
            POST srv (Body b) =
              NextResponse_json
                (ErrorPayload
                   ''Invalid App ID format. App ID should be a 32-character hexadecimal string.'' None)
                400)
       \<and> (aid \<noteq> [] \<and> cert \<noteq> [] \<and> channelName \<noteq> [] \<and> appIdPattern_test aid \<longrightarrow>
            (\<forall>tok. signed = Inr tok \<longrightarrow>
               POST srv (Body b) =
                 NextResponse_json
                   (TokenPayload tok uidNum channelName role_str expireTime generatedAt) 200)
          \<and> (\<forall>err. signed = Inl err \<longrightarrow>
               POST srv (Body b) =
                 NextResponse_json
                   (ErrorPayload ''Failed to generate token''
                      (if instanceof_Error err then err_message err else Some ''Unknown error''))
                   500))
       \<and> (exact_on_safe_integers (to_Number srv) \<longrightarrow>
            (\<forall>k :: int. expireTimeInSeconds = of_int k \<and> \<bar>generatedAt + k\<bar> \<le> 2 ^ 53 \<longrightarrow>
               expireTime = Num (of_int (generatedAt + k))))
       \<and> (req_expireTimeInSeconds b = None \<longrightarrow> expireTimeInSeconds = 3600)
       \<and> (req_uid b = None \<longrightarrow> uidNum = Num 0)
       \<and> (\<forall>q. req_uid b = Some (ReqUidNum q) \<longrightarrow> uidNum = Num q)
       \<and> (exact_on_safe_integers (to_Number srv) \<longrightarrow>
            (\<forall>ws sg n rest.
               req_uid b = Some (ReqUidStr (ws @ sg @ show_nat n @ rest))
               \<and> list_all is_whitespace ws \<and> (sg = [] \<or> sg = ''+'' \<or> sg = ''-'')
               \<and> (rest = [] \<or> hd rest \<notin> set ''0123456789'')
               \<and> take 2 (show_nat n @ rest) \<noteq> ''0x'' \<and> take 2 (show_nat n @ rest) \<noteq> ''0X''
               \<and> n \<le> 2 ^ 53 \<longrightarrow>
               uidNum = Num (of_int ((if sg = ''-'' then - 1 else 1) * int n))))
       \<and> (\<forall>ws sg rest.
             req_uid b = Some (ReqUidStr (ws @ sg @ rest))
             \<and> list_all is_whitespace ws \<and> (sg = [] \<or> sg = ''+'' \<or> sg = ''-'')
             \<and> (rest = [] \<or>
                  (hd rest \<notin> set ''0123456789'' \<and> \<not> is_whitespace (hd rest)
                   \<and> hd rest \<noteq> CHR ''+'' \<and> hd rest \<noteq> CHR ''-'')) \<longrightarrow>
             uidNum = Num 0)"
    (is "?decode \<and> ?missing \<and> ?format \<and> ?short \<and> (?ok \<longrightarrow> ?signed) \<and> ?expiry \<and> ?default
         \<and> ?uid_none \<and> ?uid_num \<and> ?uid_dec \<and> ?uid_nan")
proof -
  have 0: ?decode
    by (simp add: POST_def POST_catch_def)
  have 1: ?missing
    by (auto simp: POST_def aid_def cert_def channelName_def Let_def)
  have 2: ?format
    by (simp add: POST_def aid_def cert_def channelName_def Let_def)
  have 3: ?short
  proof
    assume a: "length aid = 31 \<and> cert \<noteq> [] \<and> channelName \<noteq> []"
    then have "aid \<noteq> []" by auto
    moreover have "\<not> appIdPattern_test aid"
      using a appIdPattern_test_length [of aid] by auto
    ultimately have "aid \<noteq> [] \<and> cert \<noteq> [] \<and> channelName \<noteq> [] \<and> \<not> appIdPattern_test aid"
      using a by simp
    then show "POST srv (Body b) =
              NextResponse_json
                (ErrorPayload
                   ''Invalid App ID format. App ID should be a 32-character hexadecimal string.'' None)
                400"
      by (rule mp [OF 2])
  qed
  have 4: "?ok \<longrightarrow> ?signed"
  proof (rule impI)
    assume v: ?ok
    have p: "POST srv (Body b) =
        (case signed of
           Inl err \<Rightarrow> POST_catch err
         | Inr tok \<Rightarrow>
             NextResponse_json
               (TokenPayload tok uidNum channelName role_str expireTime generatedAt) 200)"
      using v
      unfolding POST_def signed_def aid_def cert_def channelName_def role_str_def
        expireTimeInSeconds_def generatedAt_def uidNum_def expireTime_def Let_def
      by simp
    show ?signed
      unfolding p by (simp add: POST_catch_def)
  qed
  have 5: ?expiry
  proof (intro impI allI)
    fix k :: int
    assume ex: "exact_on_safe_integers (to_Number srv)"
      and k: "expireTimeInSeconds = of_int k \<and> \<bar>generatedAt + k\<bar> \<le> 2 ^ 53"
    have "to_Number srv (of_int (generatedAt + k)) = Num (of_int (generatedAt + k))"
      using ex k unfolding exact_on_safe_integers_def by blast
    then show "expireTime = Num (of_int (generatedAt + k))"
      using k unfolding expireTime_def by simp
  qed
  have 6: ?default by (simp add: expireTimeInSeconds_def)
  have 7: ?uid_none by (simp add: uidNum_def)
  have 8: ?uid_num by (simp add: uidNum_def)
  have 9: ?uid_dec
  proof (intro impI allI)
    fix ws sg n rest
    assume ex: "exact_on_safe_integers (to_Number srv)"
      and h: "req_uid b = Some (ReqUidStr (ws @ sg @ show_nat n @ rest))
               \<and> list_all is_whitespace ws \<and> (sg = [] \<or> sg = ''+'' \<or> sg = ''-'')
               \<and> (rest = [] \<or> hd rest \<notin> set ''0123456789'')
               \<and> take 2 (show_nat n @ rest) \<noteq> ''0x'' \<and> take 2 (show_nat n @ rest) \<noteq> ''0X''
               \<and> n \<le> 2 ^ 53"
    from h have u: "req_uid b = Some (ReqUidStr (ws @ sg @ show_nat n @ rest))"
      and ws: "list_all is_whitespace ws" and sg: "sg = [] \<or> sg = ''+'' \<or> sg = ''-''"
      and rest: "rest = [] \<or> hd rest \<notin> set ''0123456789''"
      and hex: "take 2 (show_nat n @ rest) \<noteq> ''0x''" "take 2 (show_nat n @ rest) \<noteq> ''0X''"
      and safe: "n \<le> 2 ^ 53"
      by blast+
    show "uidNum = Num (of_int ((if sg = ''-'' then - 1 else 1) * int n))"
      unfolding uidNum_def u by (rule uidNum_of_decimal [OF ex ws sg rest hex safe])
  qed
  have 10: ?uid_nan
  proof (intro impI allI)
    fix ws sg rest
    assume h: "req_uid b = Some (ReqUidStr (ws @ sg @ rest))
             \<and> list_all is_whitespace ws \<and> (sg = [] \<or> sg = ''+'' \<or> sg = ''-'')
             \<and> (rest = [] \<or>
                  (hd rest \<notin> set ''0123456789'' \<and> \<not> is_whitespace (hd rest)
                   \<and> hd rest \<noteq> CHR ''+'' \<and> hd rest \<noteq> CHR ''-''))"
    from h have u: "req_uid b = Some (ReqUidStr (ws @ sg @ rest))"
      and ws: "list_all is_whitespace ws" and sg: "sg = [] \<or> sg = ''+'' \<or> sg = ''-''"
      and rest: "rest = [] \<or>
                  (hd rest \<notin> set ''0123456789'' \<and> \<not> is_whitespace (hd rest)
                   \<and> hd rest \<noteq> CHR ''+'' \<and> hd rest \<noteq> CHR ''-'')"
      by blast+
    show "uidNum = Num 0"
      unfolding uidNum_def u by (rule uidNum_of_no_digit [OF ws sg rest])
  qed
  show ?thesis
    by (rule conjI [OF 0 conjI [OF 1 conjI [OF 2 conjI [OF 3 conjI [OF 4 conjI [OF 5
          conjI [OF 6 conjI [OF 7 conjI [OF 8 conjI [OF 9 10]]]]]]]]]])
qed

text \<open>
  A body that is not JSON has no \<open>appId\<close> and is answered 500, not 400. A numeric user
  id of 1.5 is signed and returned as 1.5, which is not an integer.
\<close>

theorem POST_contract_counterexample:
  "POST srv0 (BodyError not_json) =
     NextResponse_json
       (ErrorPayload ''Failed to generate token'' (Some ''Unexpected end of JSON input'')) 500
   \<and> POST srv0 (Body body_fraction) =
       NextResponse_json
         (TokenPayload (''007'' @ replicate 60 (CHR ''x'')) (Num (3 / 2)) ''demo'' ''publisher''
            (Num 1700003600) 1700000000)
         200
   \<and> (3 / 2 :: rat) \<notin> \<int>"
proof -
  have 1: "POST srv0 (BodyError not_json) =
     NextResponse_json
       (ErrorPayload ''Failed to generate token'' (Some ''Unexpected end of JSON input'')) 500"
    by (simp add: POST_def POST_catch_def not_json_def)
  have 2: "POST srv0 (Body body_fraction) =
       NextResponse_json
         (TokenPayload (''007'' @ replicate 60 (CHR ''x'')) (Num (3 / 2)) ''demo'' ''publisher''
            (Num 1700003600) 1700000000)
         200"
    by (simp add: POST_def body_fraction_def body32_def body31_def srv0_def str_or_def
        appIdPattern_test_def is_hex_def Let_def)
  show ?thesis
    by (rule conjI [OF 1 conjI [OF 2 three_halves]])
qed

text \<open>
  An App ID of 31 hexadecimal digits, and the same request with 32: the user id
  \<^verbatim>\<open>"42"\<close> becomes 42 and the token expires 3600 seconds after it was made.
\<close>

theorem POST_contract_witness:
  "POST srv0 (Body body31) =
     NextResponse_json
       (ErrorPayload
          ''Invalid App ID format. App ID should be a 32-character hexadecimal string.'' None)
       400
   \<and> POST srv0 (Body body32) =
       NextResponse_json
         (TokenPayload (''007'' @ replicate 60 (CHR ''x'')) (Num 42) ''demo'' ''publisher''
            (Num 1700003600) 1700000000)
         200"
proof -
  note t31 = POST_contract [where b = body31 and srv = srv0]
  note short = conjunct1 [OF conjunct2 [OF conjunct2 [OF conjunct2 [OF t31]]]]
  have w1: "POST srv0 (Body body31) =
     NextResponse_json
       (ErrorPayload
          ''Invalid App ID format. App ID should be a 32-character hexadecimal string.'' None)
       400"
    by (rule mp [OF short]) (simp add: body31_def str_or_def)
  note t = POST_contract [where b = body32 and srv = srv0]
  note r4 = conjunct2 [OF conjunct2 [OF conjunct2 [OF conjunct2 [OF t]]]]
  note valid = conjunct1 [OF r4]
  note r5 = conjunct2 [OF r4]
  note expiry = conjunct1 [OF r5]
  note r9 = conjunct2 [OF conjunct2 [OF conjunct2 [OF conjunct2 [OF r5]]]]
  note uid_dec = conjunct1 [OF r9]
  have ok: "str_or (req_appId body32) [] \<noteq> [] \<and> str_or (req_appCertificate body32) [] \<noteq> []
      \<and> str_or (req_channelName body32) [] \<noteq> [] \<and> appIdPattern_test (str_or (req_appId body32) [])"
    by (simp add: body32_def body31_def str_or_def appIdPattern_test_def is_hex_def)
  note signed = spec [OF conjunct1 [OF mp [OF valid ok]], of "''007'' @ replicate 60 (CHR ''x'')"]
  have p: "POST srv0 (Body body32) =
      NextResponse_json
        (TokenPayload (''007'' @ replicate 60 (CHR ''x''))
           (uidNum_of (to_Number srv0) (req_uid body32))
           (str_or (req_channelName body32) [])
           (case req_role body32 of None \<Rightarrow> ''audience'' | Some r \<Rightarrow> r)
           (to_Number srv0
              (of_int (date_now srv0 div 1000) +
               (case req_expireTimeInSeconds body32 of None \<Rightarrow> 3600 | Some q \<Rightarrow> q)))
           (date_now srv0 div 1000))
        200"
    by (rule mp [OF signed]) (simp add: srv0_def)
  note dec = spec [OF spec [OF spec [OF spec [OF mp [OF uid_dec srv0_exact], of "[]"], of "[]"], of 42], of "[]"]
  have u: "uidNum_of (to_Number srv0) (req_uid body32) =
      Num (of_int ((if [] = ''-'' then - 1 else 1) * int 42))"
    by (rule mp [OF dec]) (simp add: body32_def body31_def show_nat_42)
  note ex = spec [OF mp [OF expiry srv0_exact], of 3600]
  have e: "to_Number srv0
              (of_int (date_now srv0 div 1000) +
               (case req_expireTimeInSeconds body32 of None \<Rightarrow> 3600 | Some q \<Rightarrow> q)) =
           Num (of_int (date_now srv0 div 1000 + 3600))"
    by (rule mp [OF ex]) (simp add: body32_def body31_def srv0_def)
  have w2: "POST srv0 (Body body32) =
       NextResponse_json
         (TokenPayload (''007'' @ replicate 60 (CHR ''x'')) (Num 42) ''demo'' ''publisher''
            (Num 1700003600) 1700000000)
         200"
    unfolding p u e by (simp add: body32_def body31_def srv0_def str_or_def)
  show ?thesis
    by (rule conjI [OF w1 w2])
qed

lemma parseInt_examples:
  "parseInt Num ''42'' = Num 42"
  "parseInt Num ''  -7px'' = Num (- 7)"
  "parseInt Num ''0x1F'' = Num 31"
  "parseInt Num ''abc'' = NaN"
  "parseInt Num [] = NaN"
  by (simp_all add: parseInt_def parse_sign_def parse_radix_def is_whitespace_def is_digit_in_def
      digit_value_def digits_value_def)

end
